theory Spec2Isabelle
  imports Complex_Main
begin

section \<open>Substrait expressions\<close>

text \<open>
  The converter of \<^verbatim>\<open>velox/substrait/SubstraitToVeloxPlan.cpp\<close> reads decoded Substrait
  messages. An expression is one of the \<^verbatim>\<open>rex_type\<close> cases the source switches on: a scalar
  function call, a field selection, a literal, or any other case.

  A scalar call holds its function anchor and its arguments. The source resolves the anchor
  through \<^verbatim>\<open>findSubstraitFuncSpec\<close> and splits the resulting signature with
  \<^verbatim>\<open>getSubFunctionName\<close> and \<^verbatim>\<open>getSubFunctionTypes\<close> (for \<^verbatim>\<open>gte:i32_i32\<close> the name
  \<^verbatim>\<open>gte\<close> and the type tags \<^verbatim>\<open>i32\<close>, \<^verbatim>\<open>i32\<close>). A call is modelled after that resolution:
  it carries the name and the type tags of its signature.

  A selection is a direct reference to a struct field; it carries the column index that
  \<^verbatim>\<open>parseReferenceSegment\<close> returns for it.
\<close>

datatype Literal =
    LitBoolean bool
  | LitI32 int
  | LitI64 int
  | LitFp64 real
  | LitString string
  | LitList "Literal list"
  | LitNull

datatype Expression =
    kScalarFunction ScalarFunction
  | kSelection nat
  | kLiteral Literal
  | kOtherRex
and ScalarFunction =
    ScalarFunction (fname: string) (ftypes: "string list") (args: "Expression list")

text \<open>
  The failures of the source. \<^verbatim>\<open>VELOX_NYI\<close>, \<^verbatim>\<open>VELOX_FAIL\<close> and \<^verbatim>\<open>VELOX_CHECK\<close> throw;
  an index past the end of a container and a dereferenced null \<^verbatim>\<open>FilterInfo\<close> pointer are
  undefined behaviour in C++ and are failures of the model; \<^verbatim>\<open>variant::value\<close> throws when
  the variant holds another kind than the one asked for.
\<close>

datatype error =
    VeloxNYI
  | VeloxFail
  | VeloxCheckFailed
  | IndexOutOfRange
  | NullFilterInfo
  | WrongVariantKind

definition has_scalar_function :: "Expression \<Rightarrow> bool" where
  "has_scalar_function e = (case e of kScalarFunction _ \<Rightarrow> True | _ \<Rightarrow> False)"

definition has_selection :: "Expression \<Rightarrow> bool" where
  "has_selection e = (case e of kSelection _ \<Rightarrow> True | _ \<Rightarrow> False)"

section \<open>Flattening the conditions joined by and\<close>

text \<open>
  \<^verbatim>\<open>flattenConditions\<close> appends to the vector it is given; the model returns the calls
  appended, in order. \<^verbatim>\<open>flattenArgs\<close> is the loop over the arguments of an \<^verbatim>\<open>and\<close>.
\<close>

fun flattenConditions :: "Expression \<Rightarrow> error + ScalarFunction list"
  and flattenArgs :: "Expression list \<Rightarrow> error + ScalarFunction list" where
  "flattenConditions (kScalarFunction (ScalarFunction n ts as)) =
     (if n = ''and'' then flattenArgs as else Inr [ScalarFunction n ts as])"
| "flattenConditions (kSelection i) = Inl VeloxNYI"
| "flattenConditions (kLiteral l) = Inl VeloxNYI"
| "flattenConditions kOtherRex = Inl VeloxNYI"
| "flattenArgs [] = Inr []"
| "flattenArgs (sCondition # rest) =
     (case flattenConditions sCondition of
        Inl e \<Rightarrow> Inl e
      | Inr fs \<Rightarrow> (case flattenArgs rest of Inl e \<Rightarrow> Inl e | Inr gs \<Rightarrow> Inr (fs @ gs)))"

text \<open>
  The nodes that flattening reaches and does not recurse into: every node of the expression
  that lies below calls named \<^verbatim>\<open>and\<close> only.
\<close>

fun andLeaves :: "Expression \<Rightarrow> Expression list"
  and andLeavesList :: "Expression list \<Rightarrow> Expression list" where
  "andLeaves (kScalarFunction (ScalarFunction n ts as)) =
     (if n = ''and'' then andLeavesList as else [kScalarFunction (ScalarFunction n ts as)])"
| "andLeaves (kSelection i) = [kSelection i]"
| "andLeaves (kLiteral l) = [kLiteral l]"
| "andLeaves kOtherRex = [kOtherRex]"
| "andLeavesList [] = []"
| "andLeavesList (e # es) = andLeaves e @ andLeavesList es"

fun scalarsOf :: "Expression list \<Rightarrow> ScalarFunction list" where
  "scalarsOf [] = []"
| "scalarsOf (kScalarFunction f # es) = f # scalarsOf es"
| "scalarsOf (e # es) = scalarsOf es"

section \<open>Join keys\<close>

text \<open>
  \<^verbatim>\<open>extractJoinKeys\<close> walks the join condition with a vector used as a stack. The list
  \<open>expressions\<close> is that vector with its back at the head: \<^verbatim>\<open>back\<close> and \<^verbatim>\<open>pop_back\<close> take
  the head, \<^verbatim>\<open>push_back\<close> conses. The two output vectors hold pointers to field references;
  the model holds the column index of each reference, appended at the end as \<^verbatim>\<open>push_back\<close>
  does.

  The name of a call is resolved here through \<^verbatim>\<open>findVeloxFunction\<close>, which is not part of
  the sources at hand: it is the parameter of that name, applied to the name of the call.
  Reading \<^verbatim>\<open>args[0]\<close> or \<^verbatim>\<open>args[1]\<close> of a call with fewer arguments is \<open>IndexOutOfRange\<close>.
\<close>

function extractJoinKeys_loop ::
  "(string \<Rightarrow> string) \<Rightarrow> Expression list \<Rightarrow> nat list \<Rightarrow> nat list
     \<Rightarrow> error + (nat list \<times> nat list)" where
  "extractJoinKeys_loop findVeloxFunction [] leftExprs rightExprs = Inr (leftExprs, rightExprs)"
| "extractJoinKeys_loop findVeloxFunction (kScalarFunction (ScalarFunction n ts as) # expressions)
       leftExprs rightExprs =
     (if findVeloxFunction n = ''and'' then
        (case as of
           a0 # a1 # _ \<Rightarrow>
             extractJoinKeys_loop findVeloxFunction (a1 # a0 # expressions) leftExprs rightExprs
         | _ \<Rightarrow> Inl IndexOutOfRange)
      else if findVeloxFunction n = ''eq'' then
        (if list_all has_selection as then
           (case as of
              kSelection l # kSelection r # _ \<Rightarrow>
                extractJoinKeys_loop findVeloxFunction expressions
                  (leftExprs @ [l]) (rightExprs @ [r])
            | _ \<Rightarrow> Inl IndexOutOfRange)
         else Inl VeloxCheckFailed)
      else Inl VeloxNYI)"
| "extractJoinKeys_loop findVeloxFunction (kSelection i # expressions) leftExprs rightExprs =
     Inl VeloxFail"
| "extractJoinKeys_loop findVeloxFunction (kLiteral l # expressions) leftExprs rightExprs =
     Inl VeloxFail"
| "extractJoinKeys_loop findVeloxFunction (kOtherRex # expressions) leftExprs rightExprs =
     Inl VeloxFail"
  by pat_completeness auto
termination
  by (relation "measure (\<lambda>(vf, expressions, ls, rs). size_list size expressions)") auto

definition extractJoinKeys ::
  "(string \<Rightarrow> string) \<Rightarrow> Expression \<Rightarrow> error + (nat list \<times> nat list)" where
  "extractJoinKeys findVeloxFunction joinExpression =
     extractJoinKeys_loop findVeloxFunction [joinExpression] [] []"

text \<open>
  The part of \<^verbatim>\<open>toVeloxPlan(JoinRel)\<close> that takes the keys: the extraction, then
  \<^verbatim>\<open>VELOX_CHECK_EQ(leftExprs.size(), rightExprs.size())\<close>.
\<close>

definition joinKeys ::
  "(string \<Rightarrow> string) \<Rightarrow> Expression \<Rightarrow> error + (nat list \<times> nat list)" where
  "joinKeys findVeloxFunction expression =
     (case extractJoinKeys findVeloxFunction expression of
        Inl e \<Rightarrow> Inl e
      | Inr (leftExprs, rightExprs) \<Rightarrow>
          if length leftExprs = length rightExprs then Inr (leftExprs, rightExprs)
          else Inl VeloxCheckFailed)"

text \<open>
  A join condition that is a tree of two-argument \<^verbatim>\<open>and\<close> calls over
  \<^verbatim>\<open>eq(field, field)\<close> leaves, and the key pairs of its leaves read from left to right,
  which is the order in which the condition is written.
\<close>

fun isJoinTree :: "(string \<Rightarrow> string) \<Rightarrow> Expression \<Rightarrow> bool" where
  "isJoinTree vf (kScalarFunction (ScalarFunction n ts [a, b])) =
     (if vf n = ''and'' then isJoinTree vf a \<and> isJoinTree vf b
      else vf n = ''eq'' \<and> has_selection a \<and> has_selection b)"
| "isJoinTree vf e = False"

fun textualKeyPairs :: "(string \<Rightarrow> string) \<Rightarrow> Expression \<Rightarrow> (nat \<times> nat) list" where
  "textualKeyPairs vf (kScalarFunction (ScalarFunction n ts [a, b])) =
     (if vf n = ''and'' then textualKeyPairs vf a @ textualKeyPairs vf b
      else (case (a, b) of (kSelection l, kSelection r) \<Rightarrow> [(l, r)] | _ \<Rightarrow> []))"
| "textualKeyPairs vf e = []"

section \<open>Stream inputs\<close>

text \<open>
  \<^verbatim>\<open>std::string::find\<close>: the position of the first occurrence of \<open>p\<close> in \<open>s\<close>, counted
  from \<open>k\<close>, or \<open>None\<close> for \<^verbatim>\<open>npos\<close>.
\<close>

fun string_find :: "string \<Rightarrow> string \<Rightarrow> nat \<Rightarrow> nat option" where
  "string_find p [] k = (if p = [] then Some k else None)"
| "string_find p (c # cs) k =
     (if take (length p) (c # cs) = p then Some k else string_find p cs (Suc k))"

text \<open>
  \<^verbatim>\<open>std::stoi\<close> in base 10, as \<^verbatim>\<open>strtol\<close> reads: white space is skipped, then an optional
  sign, then the longest run of digits; what follows the digits is ignored. No digit is
  \<^verbatim>\<open>std::invalid_argument\<close>, a value outside the 32-bit \<^verbatim>\<open>int\<close> is
  \<^verbatim>\<open>std::out_of_range\<close>; both are \<open>None\<close>.
\<close>

definition isspace :: "char \<Rightarrow> bool" where
  "isspace c = (c = CHR '' '' \<or> c = CHR 0x09 \<or> c = CHR 0x0A \<or> c = CHR 0x0B
                \<or> c = CHR 0x0C \<or> c = CHR 0x0D)"

definition digitValue :: "char \<Rightarrow> int option" where
  "digitValue c =
     (let code = (of_char c :: nat)
      in if of_char CHR ''0'' \<le> code \<and> code \<le> of_char CHR ''9''
         then Some (int code - int (of_char CHR ''0'')) else None)"

fun readDigits :: "string \<Rightarrow> int \<Rightarrow> int" where
  "readDigits [] acc = acc"
| "readDigits (c # cs) acc =
     (case digitValue c of None \<Rightarrow> acc | Some d \<Rightarrow> readDigits cs (10 * acc + d))"

definition startsWithDigit :: "string \<Rightarrow> bool" where
  "startsWithDigit s = (case s of [] \<Rightarrow> False | c # _ \<Rightarrow> digitValue c \<noteq> None)"

definition stoi :: "string \<Rightarrow> int option" where
  "stoi str =
     (let s = dropWhile isspace str;
          negative = (case s of c # _ \<Rightarrow> c = CHR ''-'' | [] \<Rightarrow> False);
          signed = (case s of c # _ \<Rightarrow> c = CHR ''-'' \<or> c = CHR ''+'' | [] \<Rightarrow> False);
          digits = (if signed then tl s else s)
      in if \<not> startsWithDigit digits then None
         else (let v = (if negative then - readDigits digits 0 else readDigits digits 0)
               in if - (2 ^ 31) \<le> v \<and> v < 2 ^ 31 then Some v else None))"

record LocalFile =
  uri_file :: string
  partition_index :: nat
  start :: nat
  file_length :: nat
  file_format :: int

datatype TypeKind =
    BOOLEAN | TINYINT | SMALLINT | INTEGER | BIGINT | REAL | DOUBLE | VARCHAR | VARBINARY
  | TIMESTAMP | DATE | ARRAY | MAP | ROW | UNKNOWN_KIND

text \<open>
  The fields of a \<^verbatim>\<open>ReadRel\<close> that the converter reads. The base schema is the list of its
  names and the list of the types that \<^verbatim>\<open>parseNamedStruct\<close> and \<^verbatim>\<open>toVeloxType\<close> give.
\<close>

record ReadRel =
  local_files :: "LocalFile list option"
  base_schema :: "(string list \<times> TypeKind list) option"
  read_filter :: "Expression option"
  has_virtual_table :: bool

definition streamIsInput :: "bool \<Rightarrow> ReadRel \<Rightarrow> error + int" where
  "streamIsInput validationMode sRead =
     (case local_files sRead of
        Some fileList \<Rightarrow>
          (case fileList of
             [] \<Rightarrow> Inl VeloxFail
           | file0 # _ \<Rightarrow>
               (let filePath = uri_file file0; prefix = ''iterator:''
                in case string_find prefix filePath 0 of
                     None \<Rightarrow> Inr (- 1)
                   | Some pos \<Rightarrow>
                       (case stoi (drop (pos + length prefix) filePath) of
                          Some idx \<Rightarrow> Inr idx
                        | None \<Rightarrow> Inl VeloxFail)))
      | None \<Rightarrow> if validationMode then Inr (- 1) else Inl VeloxFail)"

section \<open>Pushdown eligibility\<close>

text \<open>
  \<^verbatim>\<open>fieldOrWithLiteral\<close> returns a flag and writes the column index through a reference. The
  callers read the index only when the flag is true, so the model returns \<open>Some\<close> index for
  true and \<open>None\<close> for false. The loop over the two parameters keeps the index of the last
  selection and the two flags.
\<close>

fun fieldOrWithLiteral_loop ::
  "Expression list \<Rightarrow> nat option \<times> bool \<times> bool \<Rightarrow> nat option \<times> bool \<times> bool" where
  "fieldOrWithLiteral_loop [] st = st"
| "fieldOrWithLiteral_loop (kSelection i # params) (fieldIndex, fieldExists, literalExists) =
     fieldOrWithLiteral_loop params (Some i, True, literalExists)"
| "fieldOrWithLiteral_loop (kLiteral l # params) (fieldIndex, fieldExists, literalExists) =
     fieldOrWithLiteral_loop params (fieldIndex, fieldExists, True)"
| "fieldOrWithLiteral_loop (p # params) st = fieldOrWithLiteral_loop params st"

definition fieldOrWithLiteral :: "ScalarFunction \<Rightarrow> nat option" where
  "fieldOrWithLiteral function =
     (if length (args function) = 1 then
        (case args function of kSelection i # _ \<Rightarrow> Some i | _ \<Rightarrow> None)
      else if length (args function) \<noteq> 2 then None
      else (case fieldOrWithLiteral_loop (args function) (None, False, False) of
              (fieldIndex, fieldExists, literalExists) \<Rightarrow>
                if fieldExists \<and> literalExists then fieldIndex else None))"

text \<open>
  \<^verbatim>\<open>chidrenFunctionsOnSameField\<close>: the column indices of the selections among the parameters
  of the children, \<open>None\<close> when a child is not a scalar call.
\<close>

fun selectionIndices :: "Expression list \<Rightarrow> nat list" where
  "selectionIndices [] = []"
| "selectionIndices (kSelection i # params) = i # selectionIndices params"
| "selectionIndices (p # params) = selectionIndices params"

fun childrenColIndices :: "Expression list \<Rightarrow> nat list \<Rightarrow> nat list option" where
  "childrenColIndices [] colIndices = Some colIndices"
| "childrenColIndices (kScalarFunction scalarFunction # rest) colIndices =
     childrenColIndices rest (colIndices @ selectionIndices (args scalarFunction))"
| "childrenColIndices (arg # rest) colIndices = None"

definition chidrenFunctionsOnSameField :: "ScalarFunction \<Rightarrow> bool" where
  "chidrenFunctionsOnSameField function =
     (case childrenColIndices (args function) [] of
        None \<Rightarrow> False
      | Some colIndices \<Rightarrow>
          (case colIndices of [] \<Rightarrow> True | c0 # _ \<Rightarrow> list_all (\<lambda>idx. idx = c0) colIndices))"

definition getColumnIndexFromIn :: "ScalarFunction \<Rightarrow> error + nat" where
  "getColumnIndexFromIn scalarFunction =
     (case args scalarFunction of
        [a0, a1] \<Rightarrow>
          (case a0 of
             kSelection colIdx \<Rightarrow>
               (case a1 of
                  kLiteral lit \<Rightarrow>
                    (case lit of LitList _ \<Rightarrow> Inr colIdx | _ \<Rightarrow> Inl VeloxCheckFailed)
                | _ \<Rightarrow> Inl VeloxCheckFailed)
           | _ \<Rightarrow> Inl VeloxCheckFailed)
      | _ \<Rightarrow> Inl VeloxCheckFailed)"

fun getInColIndices_loop :: "ScalarFunction list \<Rightarrow> nat set \<Rightarrow> error + nat set" where
  "getInColIndices_loop [] inCols = Inr inCols"
| "getInColIndices_loop (scalarFunction # rest) inCols =
     (if fname scalarFunction = ''in'' then
        (case args scalarFunction of
           [] \<Rightarrow> Inl VeloxCheckFailed
         | a0 # _ \<Rightarrow>
             if has_selection a0 then
               (case getColumnIndexFromIn scalarFunction of
                  Inl e \<Rightarrow> Inl e
                | Inr colIdx \<Rightarrow> getInColIndices_loop rest (insert colIdx inCols))
             else getInColIndices_loop rest inCols)
      else getInColIndices_loop rest inCols)"

definition getInColIndices :: "ScalarFunction list \<Rightarrow> error + nat set" where
  "getInColIndices scalarFunctions = getInColIndices_loop scalarFunctions {}"

definition supportedCommonFunctions :: "string set" where
  "supportedCommonFunctions =
     {''is_not_null'', ''gte'', ''gt'', ''lte'', ''lt'', ''equal'', ''in''}"

definition canPushdownCommonFunction :: "ScalarFunction \<Rightarrow> nat set \<Rightarrow> string \<Rightarrow> bool" where
  "canPushdownCommonFunction scalarFunction inCols filterName =
     (if filterName \<notin> supportedCommonFunctions then False
      else (case fieldOrWithLiteral scalarFunction of
              None \<Rightarrow> False
            | Some fieldIdx \<Rightarrow>
                if fieldIdx \<notin> inCols then True
                else if filterName = ''is_not_null'' \<or> filterName = ''in'' then True
                else False))"

definition supportedNotFunctions :: "string set" where
  "supportedNotFunctions = {''gte'', ''gt'', ''lte'', ''lt'', ''equal''}"

text \<open>
  The loop of \<^verbatim>\<open>canPushdownNot\<close> over the arguments of a negated \<^verbatim>\<open>equal\<close>: it records
  the column of every selection in \<open>notEqualCols\<close> and stops with false at a column that is
  recorded already. The set is shared with the caller, so it is returned with the flag.
\<close>

fun notEqualArgs :: "Expression list \<Rightarrow> nat set \<Rightarrow> bool \<times> nat set" where
  "notEqualArgs [] notEqualCols = (True, notEqualCols)"
| "notEqualArgs (kSelection colIdx # rest) notEqualCols =
     (if colIdx \<notin> notEqualCols then notEqualArgs rest (insert colIdx notEqualCols)
      else (False, notEqualCols))"
| "notEqualArgs (eqArg # rest) notEqualCols = notEqualArgs rest notEqualCols"

definition canPushdownNot ::
  "ScalarFunction \<Rightarrow> nat set \<Rightarrow> nat set \<Rightarrow> error + (bool \<times> nat set)" where
  "canPushdownNot scalarFunction inCols notEqualCols =
     (case args scalarFunction of
        [notArg] \<Rightarrow>
          (case notArg of
             kScalarFunction child \<Rightarrow>
               (if fname child \<notin> supportedNotFunctions then Inr (False, notEqualCols)
                else (case fieldOrWithLiteral child of
                        None \<Rightarrow> Inr (False, notEqualCols)
                      | Some fieldIdx \<Rightarrow>
                          if fieldIdx \<in> inCols then Inr (False, notEqualCols)
                          else if fname child = ''equal''
                            then Inr (notEqualArgs (args child) notEqualCols)
                          else Inr (True, notEqualCols)))
           | _ \<Rightarrow> Inr (False, notEqualCols))
      | _ \<Rightarrow> Inl VeloxCheckFailed)"

definition supportedOrFunctions :: "string set" where
  "supportedOrFunctions =
     {''is_not_null'', ''gte'', ''gt'', ''lte'', ''lt'', ''equal'', ''in''}"

fun canPushdownOr_loop :: "Expression list \<Rightarrow> nat set \<Rightarrow> bool \<Rightarrow> bool" where
  "canPushdownOr_loop [] inCols inExists = True"
| "canPushdownOr_loop (kScalarFunction child # rest) inCols inExists =
     (if fname child \<notin> supportedOrFunctions then False
      else (case fieldOrWithLiteral child of
              None \<Rightarrow> False
            | Some fieldIdx \<Rightarrow>
                if fieldIdx \<in> inCols then False
                else if fname child = ''in'' \<or> fname child = ''is_not_null'' then
                  (if ''i32'' \<in> set (ftypes child) \<or> ''i64'' \<in> set (ftypes child) then False
                   else if fname child = ''in'' then
                     (if inExists then False else canPushdownOr_loop rest inCols True)
                   else canPushdownOr_loop rest inCols inExists)
                else canPushdownOr_loop rest inCols inExists))"
| "canPushdownOr_loop (arg # rest) inCols inExists = False"

definition canPushdownOr :: "ScalarFunction \<Rightarrow> nat set \<Rightarrow> bool" where
  "canPushdownOr scalarFunction inCols =
     (if \<not> chidrenFunctionsOnSameField scalarFunction then False
      else canPushdownOr_loop (args scalarFunction) inCols False)"

text \<open>
  \<^verbatim>\<open>separateFilters\<close>: the loop appends each call to the pushed calls or to the remaining
  ones; \<open>notEqualCols\<close> is threaded through it.
\<close>

fun separateFilters_loop ::
  "ScalarFunction list \<Rightarrow> nat set \<Rightarrow> nat set \<Rightarrow> ScalarFunction list \<Rightarrow> ScalarFunction list
     \<Rightarrow> error + (ScalarFunction list \<times> ScalarFunction list)" where
  "separateFilters_loop [] inCols notEqualCols subfieldFunctions remainingFunctions =
     Inr (subfieldFunctions, remainingFunctions)"
| "separateFilters_loop (scalarFunction # rest) inCols notEqualCols
       subfieldFunctions remainingFunctions =
     (if fname scalarFunction \<noteq> ''not'' \<and> fname scalarFunction \<noteq> ''or'' then
        (if canPushdownCommonFunction scalarFunction inCols (fname scalarFunction)
         then separateFilters_loop rest inCols notEqualCols
                (subfieldFunctions @ [scalarFunction]) remainingFunctions
         else separateFilters_loop rest inCols notEqualCols
                subfieldFunctions (remainingFunctions @ [scalarFunction]))
      else if fname scalarFunction = ''not'' then
        (case canPushdownNot scalarFunction inCols notEqualCols of
           Inl e \<Rightarrow> Inl e
         | Inr (supported, notEqualCols') \<Rightarrow>
             if supported
             then separateFilters_loop rest inCols notEqualCols'
                    (subfieldFunctions @ [scalarFunction]) remainingFunctions
             else separateFilters_loop rest inCols notEqualCols'
                    subfieldFunctions (remainingFunctions @ [scalarFunction]))
      else
        (if canPushdownOr scalarFunction inCols
         then separateFilters_loop rest inCols notEqualCols
                (subfieldFunctions @ [scalarFunction]) remainingFunctions
         else separateFilters_loop rest inCols notEqualCols
                subfieldFunctions (remainingFunctions @ [scalarFunction])))"

definition separateFilters ::
  "ScalarFunction list \<Rightarrow> error + (ScalarFunction list \<times> ScalarFunction list)" where
  "separateFilters scalarFunctions =
     (case getInColIndices scalarFunctions of
        Inl e \<Rightarrow> Inl e
      | Inr inCols \<Rightarrow> separateFilters_loop scalarFunctions inCols {} [] [])"

section \<open>The constraints of a column\<close>

text \<open>
  A \<^verbatim>\<open>velox::variant\<close> of the kinds the converter builds, and the value
  \<^verbatim>\<open>variant::value<T>()\<close> hands to a filter: an \<^verbatim>\<open>int\<close> or \<^verbatim>\<open>int64_t\<close>, a \<^verbatim>\<open>double\<close>
  or a \<^verbatim>\<open>std::string\<close>. No arithmetic is done on these values: integers are mathematical
  integers and doubles are reals, carried unchanged.
\<close>

datatype variant = VInteger int | VBigint int | VDouble real | VVarchar string

datatype NativeValue = NativeInt int | NativeDouble real | NativeString string

text \<open>
  Modelled from the spec: the class \<^verbatim>\<open>FilterInfo\<close> is declared in
  \<^verbatim>\<open>SubstraitToVeloxPlan.h\<close>, which is not among the sources. The fields are the ones the
  source reads (\<^verbatim>\<open>lowerBounds_\<close>, \<^verbatim>\<open>nullAllowed_\<close>, ..., written here without the
  trailing underscore); the operations follow the data model of the specification: a
  bound is appended together with its exclusive flag,
  \<^verbatim>\<open>notValue\<close> and \<^verbatim>\<open>valuesVector\<close> are assigned, \<^verbatim>\<open>nullAllowed\<close> starts as true and
  \<^verbatim>\<open>forbidsNull\<close> makes it false, and \<^verbatim>\<open>isInitialized\<close> holds when at least one field
  carries a value.
\<close>

record FilterInfo =
  nullAllowed :: bool
  lowerExclusives :: "bool list"
  upperExclusives :: "bool list"
  notValue :: "variant option"
  lowerBounds :: "variant option list"
  upperBounds :: "variant option list"
  valuesVector :: "variant list"

definition newFilterInfo :: FilterInfo where
  "newFilterInfo =
     \<lparr> nullAllowed = True, lowerExclusives = [], upperExclusives = [], notValue = None,
       lowerBounds = [], upperBounds = [], valuesVector = [] \<rparr>"

definition forbidsNull :: "FilterInfo \<Rightarrow> FilterInfo" where
  "forbidsNull fi = fi\<lparr> nullAllowed := False \<rparr>"

definition setLower :: "variant option \<Rightarrow> bool \<Rightarrow> FilterInfo \<Rightarrow> FilterInfo" where
  "setLower left isExclusive fi =
     fi\<lparr> lowerBounds := lowerBounds fi @ [left],
         lowerExclusives := lowerExclusives fi @ [isExclusive] \<rparr>"

definition setUpper :: "variant option \<Rightarrow> bool \<Rightarrow> FilterInfo \<Rightarrow> FilterInfo" where
  "setUpper right isExclusive fi =
     fi\<lparr> upperBounds := upperBounds fi @ [right],
         upperExclusives := upperExclusives fi @ [isExclusive] \<rparr>"

definition setNotValue :: "variant option \<Rightarrow> FilterInfo \<Rightarrow> FilterInfo" where
  "setNotValue v fi = fi\<lparr> notValue := v \<rparr>"

definition setValues :: "variant list \<Rightarrow> FilterInfo \<Rightarrow> FilterInfo" where
  "setValues values fi = fi\<lparr> valuesVector := values \<rparr>"

definition isInitialized :: "FilterInfo \<Rightarrow> bool" where
  "isInitialized fi =
     (lowerBounds fi \<noteq> [] \<or> upperBounds fi \<noteq> [] \<or> notValue fi \<noteq> None
      \<or> valuesVector fi \<noteq> [] \<or> \<not> nullAllowed fi)"

text \<open>
  The map from column index to \<^verbatim>\<open>FilterInfo\<close>. \<^verbatim>\<open>colInfoMap[colIdx]->f()\<close> on an index
  without an entry creates a null pointer and dereferences it: \<open>NullFilterInfo\<close>.
\<close>

type_synonym ColInfoMap = "nat \<Rightarrow> FilterInfo option"

definition onColumn ::
  "ColInfoMap \<Rightarrow> nat \<Rightarrow> (FilterInfo \<Rightarrow> FilterInfo) \<Rightarrow> error + ColInfoMap" where
  "onColumn colInfoMap colIdx f =
     (case colInfoMap colIdx of
        None \<Rightarrow> Inl NullFilterInfo
      | Some fi \<Rightarrow> Inr (colInfoMap(colIdx \<mapsto> f fi)))"

definition setColInfoMap ::
  "string \<Rightarrow> nat \<Rightarrow> variant option \<Rightarrow> bool \<Rightarrow> ColInfoMap \<Rightarrow> error + ColInfoMap" where
  "setColInfoMap filterName colIdx literalVariant reverse colInfoMap =
     (if filterName = ''is_not_null'' then
        (if reverse then Inl VeloxNYI else onColumn colInfoMap colIdx forbidsNull)
      else if filterName = ''gte'' then
        (if reverse then onColumn colInfoMap colIdx (setUpper literalVariant True)
         else onColumn colInfoMap colIdx (setLower literalVariant False))
      else if filterName = ''gt'' then
        (if reverse then onColumn colInfoMap colIdx (setUpper literalVariant False)
         else onColumn colInfoMap colIdx (setLower literalVariant True))
      else if filterName = ''lte'' then
        (if reverse then onColumn colInfoMap colIdx (setLower literalVariant True)
         else onColumn colInfoMap colIdx (setUpper literalVariant False))
      else if filterName = ''lt'' then
        (if reverse then onColumn colInfoMap colIdx (setLower literalVariant False)
         else onColumn colInfoMap colIdx (setUpper literalVariant True))
      else if filterName = ''equal'' then
        (if reverse then onColumn colInfoMap colIdx (setNotValue literalVariant)
         else (case onColumn colInfoMap colIdx (setLower literalVariant False) of
                 Inl e \<Rightarrow> Inl e
               | Inr m \<Rightarrow> onColumn m colIdx (setUpper literalVariant False)))
      else Inl VeloxNYI)"

text \<open>
  Modelled from the spec: \<^verbatim>\<open>toTypedVariant\<close> belongs to the expression converter, which is
  not among the sources; it returns a tagged scalar value that keeps the type of the literal
  (i32, i64, fp64, string). A literal of another type is not converted.
\<close>

definition toTypedVariant :: "Literal \<Rightarrow> error + variant" where
  "toTypedVariant literal =
     (case literal of
        LitI32 v \<Rightarrow> Inr (VInteger v)
      | LitI64 v \<Rightarrow> Inr (VBigint v)
      | LitFp64 v \<Rightarrow> Inr (VDouble v)
      | LitString v \<Rightarrow> Inr (VVarchar v)
      | _ \<Rightarrow> Inl VeloxNYI)"

fun toTypedVariants :: "Literal list \<Rightarrow> error + variant list" where
  "toTypedVariants [] = Inr []"
| "toTypedVariants (literal # rest) =
     (case toTypedVariant literal of
        Inl e \<Rightarrow> Inl e
      | Inr v \<Rightarrow> (case toTypedVariants rest of Inl e \<Rightarrow> Inl e | Inr vs \<Rightarrow> Inr (v # vs)))"

definition setInValues :: "ScalarFunction \<Rightarrow> ColInfoMap \<Rightarrow> error + ColInfoMap" where
  "setInValues scalarFunction colInfoMap =
     (case getColumnIndexFromIn scalarFunction of
        Inl e \<Rightarrow> Inl e
      | Inr colIdx \<Rightarrow>
          (case args scalarFunction of
             [a0, kLiteral (LitList valueList)] \<Rightarrow>
               (case toTypedVariants valueList of
                  Inl e \<Rightarrow> Inl e
                | Inr variants \<Rightarrow> onColumn colInfoMap colIdx (setValues variants))
           | _ \<Rightarrow> Inl VeloxCheckFailed))"

text \<open>
  The accessors of a Substrait literal return the default of the field when the literal
  is of another type.
\<close>

definition lit_i32 :: "Literal \<Rightarrow> int" where
  "lit_i32 l = (case l of LitI32 v \<Rightarrow> v | _ \<Rightarrow> 0)"

definition lit_i64 :: "Literal \<Rightarrow> int" where
  "lit_i64 l = (case l of LitI64 v \<Rightarrow> v | _ \<Rightarrow> 0)"

definition lit_fp64 :: "Literal \<Rightarrow> real" where
  "lit_fp64 l = (case l of LitFp64 v \<Rightarrow> v | _ \<Rightarrow> 0)"

definition lit_string :: "Literal \<Rightarrow> string" where
  "lit_string l = (case l of LitString v \<Rightarrow> v | _ \<Rightarrow> [])"

text \<open>
  The loop of \<^verbatim>\<open>setFilterMap\<close> over the parameters of a call: the last selection gives the
  column, the last literal the bound, any other parameter is not supported.
\<close>

fun setFilterMap_params ::
  "Expression list \<Rightarrow> nat option \<Rightarrow> Literal option \<Rightarrow> error + (nat option \<times> Literal option)"
  where
  "setFilterMap_params [] colIdx substraitLit = Inr (colIdx, substraitLit)"
| "setFilterMap_params (kSelection i # params) colIdx substraitLit =
     setFilterMap_params params (Some i) substraitLit"
| "setFilterMap_params (kLiteral l # params) colIdx substraitLit =
     setFilterMap_params params colIdx (Some l)"
| "setFilterMap_params (param # params) colIdx substraitLit = Inl VeloxNYI"

definition setFilterMap ::
  "ScalarFunction \<Rightarrow> TypeKind list \<Rightarrow> ColInfoMap \<Rightarrow> bool \<Rightarrow> error + ColInfoMap" where
  "setFilterMap scalarFunction inputTypeList colInfoMap reverse =
     (if fname scalarFunction = ''in'' then setInValues scalarFunction colInfoMap
      else
        (case setFilterMap_params (args scalarFunction) None None of
           Inl e \<Rightarrow> Inl e
         | Inr (colIdx, substraitLit) \<Rightarrow>
             (case colIdx of
                None \<Rightarrow> Inl VeloxNYI
              | Some colIdxVal \<Rightarrow>
                  if \<not> colIdxVal < length inputTypeList then Inl IndexOutOfRange
                  else
                    (case inputTypeList ! colIdxVal of
                       INTEGER \<Rightarrow>
                         setColInfoMap (fname scalarFunction) colIdxVal
                           (map_option (\<lambda>l. VInteger (lit_i32 l)) substraitLit) reverse colInfoMap
                     | BIGINT \<Rightarrow>
                         setColInfoMap (fname scalarFunction) colIdxVal
                           (map_option (\<lambda>l. VBigint (lit_i64 l)) substraitLit) reverse colInfoMap
                     | DOUBLE \<Rightarrow>
                         setColInfoMap (fname scalarFunction) colIdxVal
                           (map_option (\<lambda>l. VDouble (lit_fp64 l)) substraitLit) reverse colInfoMap
                     | VARCHAR \<Rightarrow>
                         setColInfoMap (fname scalarFunction) colIdxVal
                           (map_option (\<lambda>l. VVarchar (lit_string l)) substraitLit) reverse
                           colInfoMap
                     | _ \<Rightarrow> Inl VeloxNYI))))"

fun setFilterMap_all ::
  "Expression list \<Rightarrow> TypeKind list \<Rightarrow> ColInfoMap \<Rightarrow> error + ColInfoMap" where
  "setFilterMap_all [] inputTypeList colInfoMap = Inr colInfoMap"
| "setFilterMap_all (kScalarFunction f # rest) inputTypeList colInfoMap =
     (case setFilterMap f inputTypeList colInfoMap False of
        Inl e \<Rightarrow> Inl e
      | Inr m \<Rightarrow> setFilterMap_all rest inputTypeList m)"
| "setFilterMap_all (arg # rest) inputTypeList colInfoMap = Inl VeloxCheckFailed"

text \<open>
  The first loop of \<^verbatim>\<open>toSubfieldFilters\<close>: every pushed call updates the
  \<^verbatim>\<open>FilterInfo\<close> of its column.
\<close>

fun accumulate ::
  "ScalarFunction list \<Rightarrow> TypeKind list \<Rightarrow> ColInfoMap \<Rightarrow> error + ColInfoMap" where
  "accumulate [] inputTypeList colInfoMap = Inr colInfoMap"
| "accumulate (scalarFunction # rest) inputTypeList colInfoMap =
     (case
        (if fname scalarFunction = ''not'' then
           (case args scalarFunction of
              [a0] \<Rightarrow>
                (case a0 of
                   kScalarFunction child \<Rightarrow> setFilterMap child inputTypeList colInfoMap True
                 | _ \<Rightarrow> Inl VeloxCheckFailed)
            | _ \<Rightarrow> Inl VeloxCheckFailed)
         else if fname scalarFunction = ''or'' then
           (if length (args scalarFunction) \<noteq> 2 then Inl VeloxCheckFailed
            else if \<not> list_all has_scalar_function (args scalarFunction)
              then Inl VeloxCheckFailed
            else setFilterMap_all (args scalarFunction) inputTypeList colInfoMap)
         else setFilterMap scalarFunction inputTypeList colInfoMap False)
      of
        Inl e \<Rightarrow> Inl e
      | Inr m \<Rightarrow> accumulate rest inputTypeList m)"

definition initialColInfoMap :: "TypeKind list \<Rightarrow> ColInfoMap" where
  "initialColInfoMap inputTypeList =
     (\<lambda>idx. if idx < length inputTypeList then Some newFilterInfo else None)"

section \<open>Subfield filters\<close>

text \<open>
  The filters of the scan reader (\<^verbatim>\<open>velox::common::Filter\<close> and its subclasses) are
  library classes outside the sources; they are data here. A range carries lower bound,
  lower unbounded, lower exclusive, upper bound, upper unbounded, upper exclusive and null
  allowed, in the order of the constructor calls of the source. A multi-range carries its
  ranges and null allowed.
\<close>

datatype Range =
  Range (rangeLower: NativeValue) (lowerUnbounded: bool) (lowerExclusive: bool)
        (rangeUpper: NativeValue) (upperUnbounded: bool) (upperExclusive: bool)
        (rangeNullAllowed: bool)

datatype Filter =
    AlwaysTrue
  | AlwaysFalse
  | IsNull
  | IsNotNull
  | BoolValue bool bool
  | BigintRange Range
  | DoubleRange Range
  | FloatRange Range
  | BytesRange Range
  | BytesValues "string list" bool
  | BigintValuesUsingBitmask "int list" bool
  | BigintValuesUsingHashTable "int list" bool
  | BigintMultiRange "Filter list" bool
  | MultiRange "Filter list" bool

datatype FilterKind =
    kAlwaysFalse | kAlwaysTrue | kIsNull | kIsNotNull | kBoolValue | kBigintRange
  | kBigintValuesUsingHashTable | kBigintValuesUsingBitmask | kDoubleRange | kFloatRange
  | kBytesRange | kBytesValues | kBigintMultiRange | kMultiRange

fun kind :: "Filter \<Rightarrow> FilterKind" where
  "kind AlwaysTrue = kAlwaysTrue"
| "kind AlwaysFalse = kAlwaysFalse"
| "kind IsNull = kIsNull"
| "kind IsNotNull = kIsNotNull"
| "kind (BoolValue v n) = kBoolValue"
| "kind (BigintRange r) = kBigintRange"
| "kind (DoubleRange r) = kDoubleRange"
| "kind (FloatRange r) = kFloatRange"
| "kind (BytesRange r) = kBytesRange"
| "kind (BytesValues vs n) = kBytesValues"
| "kind (BigintValuesUsingBitmask vs n) = kBigintValuesUsingBitmask"
| "kind (BigintValuesUsingHashTable vs n) = kBigintValuesUsingHashTable"
| "kind (BigintMultiRange rs n) = kBigintMultiRange"
| "kind (MultiRange rs n) = kMultiRange"

text \<open>
  \<^verbatim>\<open>SubfieldFilters\<close> maps a subfield, here the column name, to its filter.
  \<^verbatim>\<open>filters[name] = f\<close> replaces the filter of a name that is present.
\<close>

type_synonym SubfieldFilters = "(string \<times> Filter) list"

fun putFilter :: "string \<Rightarrow> Filter \<Rightarrow> SubfieldFilters \<Rightarrow> SubfieldFilters" where
  "putFilter name f [] = [(name, f)]"
| "putFilter name f ((name', f') # rest) =
     (if name = name' then (name, f) # rest else (name', f') # putFilter name f rest)"

text \<open>
  Modelled from the spec: \<^verbatim>\<open>RangeTraits<KIND>\<close> is declared in a header that is not among
  the sources. The builder is instantiated for four column kinds. Integer columns
  (\<^verbatim>\<open>INTEGER\<close>, \<^verbatim>\<open>BIGINT\<close>) use \<^verbatim>\<open>BigintRange\<close> and \<^verbatim>\<open>BigintMultiRange\<close>; \<^verbatim>\<open>DOUBLE\<close>
  uses \<^verbatim>\<open>DoubleRange\<close> and \<^verbatim>\<open>VARCHAR\<close> uses \<^verbatim>\<open>BytesRange\<close>, both wrapped in
  \<^verbatim>\<open>MultiRange\<close>.
\<close>

datatype RangeTraits = TraitsINTEGER | TraitsBIGINT | TraitsDOUBLE | TraitsVARCHAR

definition rangeTraits :: "TypeKind \<Rightarrow> RangeTraits option" where
  "rangeTraits k =
     (case k of
        INTEGER \<Rightarrow> Some TraitsINTEGER
      | BIGINT \<Rightarrow> Some TraitsBIGINT
      | DOUBLE \<Rightarrow> Some TraitsDOUBLE
      | VARCHAR \<Rightarrow> Some TraitsVARCHAR
      | _ \<Rightarrow> None)"

fun RangeType :: "RangeTraits \<Rightarrow> Range \<Rightarrow> Filter" where
  "RangeType TraitsINTEGER r = BigintRange r"
| "RangeType TraitsBIGINT r = BigintRange r"
| "RangeType TraitsDOUBLE r = DoubleRange r"
| "RangeType TraitsVARCHAR r = BytesRange r"

fun MultiRangeType :: "RangeTraits \<Rightarrow> Filter list \<Rightarrow> bool \<Rightarrow> Filter" where
  "MultiRangeType TraitsINTEGER rs n = BigintMultiRange rs n"
| "MultiRangeType TraitsBIGINT rs n = BigintMultiRange rs n"
| "MultiRangeType TraitsDOUBLE rs n = MultiRange rs n"
| "MultiRangeType TraitsVARCHAR rs n = MultiRange rs n"

text \<open>
  \<^verbatim>\<open>variant::value<NativeType>()\<close>: the value of a variant of the asked kind, a failure for
  a variant of another kind.
\<close>

fun nativeValue :: "RangeTraits \<Rightarrow> variant \<Rightarrow> error + NativeValue" where
  "nativeValue TraitsINTEGER (VInteger v) = Inr (NativeInt v)"
| "nativeValue TraitsBIGINT (VBigint v) = Inr (NativeInt v)"
| "nativeValue TraitsDOUBLE (VDouble v) = Inr (NativeDouble v)"
| "nativeValue TraitsVARCHAR (VVarchar v) = Inr (NativeString v)"
| "nativeValue k v = Inl WrongVariantKind"

text \<open>
  \<^verbatim>\<open>getLowest\<close> and \<^verbatim>\<open>getMax\<close>: the limits of \<^verbatim>\<open>std::numeric_limits\<close> for the numeric
  types (for \<^verbatim>\<open>double\<close> the largest finite value and its negation), the empty string for
  strings.
\<close>

definition DBL_MAX :: real where
  "DBL_MAX = (2 ^ 53 - 1) * 2 ^ 971"

fun getLowest :: "RangeTraits \<Rightarrow> NativeValue" where
  "getLowest TraitsINTEGER = NativeInt (- (2 ^ 31))"
| "getLowest TraitsBIGINT = NativeInt (- (2 ^ 63))"
| "getLowest TraitsDOUBLE = NativeDouble (- DBL_MAX)"
| "getLowest TraitsVARCHAR = NativeString []"

fun getMax :: "RangeTraits \<Rightarrow> NativeValue" where
  "getMax TraitsINTEGER = NativeInt (2 ^ 31 - 1)"
| "getMax TraitsBIGINT = NativeInt (2 ^ 63 - 1)"
| "getMax TraitsDOUBLE = NativeDouble DBL_MAX"
| "getMax TraitsVARCHAR = NativeString []"

definition createNotEqualFilter ::
  "RangeTraits \<Rightarrow> variant \<Rightarrow> bool \<Rightarrow> Filter list \<Rightarrow> error + Filter list" where
  "createNotEqualFilter k notVariant nullAllowedFlag colFilters =
     (case nativeValue k notVariant of
        Inl e \<Rightarrow> Inl e
      | Inr v \<Rightarrow>
          (let lowerFilter = RangeType k (Range v False True (getMax k) True False nullAllowedFlag);
               upperFilter = RangeType k (Range (getLowest k) True False v False True nullAllowedFlag)
           in Inr (colFilters @ [lowerFilter] @ [upperFilter])))"

text \<open>
  \<^verbatim>\<open>createBigintValues\<close> and \<^verbatim>\<open>createDoubleValues\<close> are library functions outside the
  sources; they are the parameters of these names. The values are read from the variants
  with the native type of the column kind first.
\<close>

fun nativeInts :: "RangeTraits \<Rightarrow> variant list \<Rightarrow> error + int list" where
  "nativeInts k [] = Inr []"
| "nativeInts k (v # vs) =
     (case nativeValue k v of
        Inr (NativeInt i) \<Rightarrow>
          (case nativeInts k vs of Inl e \<Rightarrow> Inl e | Inr is \<Rightarrow> Inr (i # is))
      | Inr _ \<Rightarrow> Inl WrongVariantKind
      | Inl e \<Rightarrow> Inl e)"

fun nativeDoubles :: "variant list \<Rightarrow> error + real list" where
  "nativeDoubles [] = Inr []"
| "nativeDoubles (VDouble d # vs) =
     (case nativeDoubles vs of Inl e \<Rightarrow> Inl e | Inr ds \<Rightarrow> Inr (d # ds))"
| "nativeDoubles (v # vs) = Inl WrongVariantKind"

fun nativeStrings :: "variant list \<Rightarrow> error + string list" where
  "nativeStrings [] = Inr []"
| "nativeStrings (VVarchar s # vs) =
     (case nativeStrings vs of Inl e \<Rightarrow> Inl e | Inr ss \<Rightarrow> Inr (s # ss))"
| "nativeStrings (v # vs) = Inl WrongVariantKind"

fun setInFilter ::
  "(int list \<Rightarrow> bool \<Rightarrow> Filter) \<Rightarrow> (real list \<Rightarrow> bool \<Rightarrow> Filter) \<Rightarrow> RangeTraits
     \<Rightarrow> variant list \<Rightarrow> bool \<Rightarrow> string \<Rightarrow> SubfieldFilters \<Rightarrow> error + SubfieldFilters" where
  "setInFilter createBigintValues createDoubleValues TraitsDOUBLE variants n inputName filters =
     (case nativeDoubles variants of
        Inl e \<Rightarrow> Inl e
      | Inr vs \<Rightarrow> Inr (putFilter inputName (createDoubleValues vs n) filters))"
| "setInFilter createBigintValues createDoubleValues TraitsBIGINT variants n inputName filters =
     (case nativeInts TraitsBIGINT variants of
        Inl e \<Rightarrow> Inl e
      | Inr vs \<Rightarrow> Inr (putFilter inputName (createBigintValues vs n) filters))"
| "setInFilter createBigintValues createDoubleValues TraitsINTEGER variants n inputName filters =
     (case nativeInts TraitsINTEGER variants of
        Inl e \<Rightarrow> Inl e
      | Inr vs \<Rightarrow> Inr (putFilter inputName (createBigintValues vs n) filters))"
| "setInFilter createBigintValues createDoubleValues TraitsVARCHAR variants n inputName filters =
     (case nativeStrings variants of
        Inl e \<Rightarrow> Inl e
      | Inr vs \<Rightarrow> Inr (putFilter inputName (BytesValues vs n) filters))"

definition setSubfieldFilter ::
  "RangeTraits \<Rightarrow> Filter list \<Rightarrow> string \<Rightarrow> bool \<Rightarrow> SubfieldFilters \<Rightarrow> SubfieldFilters" where
  "setSubfieldFilter k colFilters inputName n filters =
     (if length colFilters = 1 then putFilter inputName (hd colFilters) filters
      else if length colFilters > 1 then putFilter inputName (MultiRangeType k colFilters n) filters
      else filters)"

text \<open>
  The loop of \<^verbatim>\<open>constructSubfieldFilters\<close> over the ranges. The six variables of a range
  are declared before the loop and live across its iterations: they are the state of the
  recursion. \<open>n\<close> counts the iterations left and \<open>idx\<close> is the loop index.
\<close>

definition boundAt :: "variant option list \<Rightarrow> nat \<Rightarrow> variant option" where
  "boundAt bounds idx = (if idx < length bounds then bounds ! idx else None)"

fun rangeLoop ::
  "RangeTraits \<Rightarrow> FilterInfo \<Rightarrow> nat \<Rightarrow> nat
     \<Rightarrow> NativeValue \<times> bool \<times> bool \<times> NativeValue \<times> bool \<times> bool
     \<Rightarrow> Filter list \<Rightarrow> error + Filter list" where
  "rangeLoop k filterInfo 0 idx st colFilters = Inr colFilters"
| "rangeLoop k filterInfo (Suc n) idx
       (lowerBound, lowerUnb, lowerExcl, upperBound, upperUnb, upperExcl) colFilters =
     (case
        (case boundAt (lowerBounds filterInfo) idx of
           None \<Rightarrow> Inr (lowerBound, lowerUnb, lowerExcl)
         | Some lowerVariant \<Rightarrow>
             (case nativeValue k lowerVariant of
                Inl e \<Rightarrow> Inl e
              | Inr v \<Rightarrow>
                  if idx < length (lowerExclusives filterInfo)
                  then Inr (v, False, lowerExclusives filterInfo ! idx)
                  else Inl IndexOutOfRange))
      of
        Inl e \<Rightarrow> Inl e
      | Inr (lowerBound', lowerUnb', lowerExcl') \<Rightarrow>
          (case
             (case boundAt (upperBounds filterInfo) idx of
                None \<Rightarrow> Inr (upperBound, upperUnb, upperExcl)
              | Some upperVariant \<Rightarrow>
                  (case nativeValue k upperVariant of
                     Inl e \<Rightarrow> Inl e
                   | Inr v \<Rightarrow>
                       if idx < length (upperExclusives filterInfo)
                       then Inr (v, False, upperExclusives filterInfo ! idx)
                       else Inl IndexOutOfRange))
           of
             Inl e \<Rightarrow> Inl e
           | Inr (upperBound', upperUnb', upperExcl') \<Rightarrow>
               rangeLoop k filterInfo n (Suc idx)
                 (lowerBound', lowerUnb', lowerExcl', upperBound', upperUnb', upperExcl')
                 (colFilters @
                    [RangeType k
                       (Range lowerBound' lowerUnb' lowerExcl' upperBound' upperUnb' upperExcl'
                          (nullAllowed filterInfo))])))"

definition constructSubfieldFilters ::
  "(int list \<Rightarrow> bool \<Rightarrow> Filter) \<Rightarrow> (real list \<Rightarrow> bool \<Rightarrow> Filter) \<Rightarrow> RangeTraits
     \<Rightarrow> string \<Rightarrow> FilterInfo \<Rightarrow> SubfieldFilters \<Rightarrow> error + SubfieldFilters" where
  "constructSubfieldFilters createBigintValues createDoubleValues k inputName filterInfo filters =
     (if \<not> isInitialized filterInfo then Inr filters
      else
        (let rangeSize = max (length (lowerBounds filterInfo)) (length (upperBounds filterInfo))
         in if length (valuesVector filterInfo) > 0 then
              (case setInFilter createBigintValues createDoubleValues k
                      (valuesVector filterInfo) (nullAllowed filterInfo) inputName filters of
                 Inl e \<Rightarrow> Inl e
               | Inr filters' \<Rightarrow>
                   if rangeSize \<noteq> 0 then Inl VeloxCheckFailed
                   else if notValue filterInfo \<noteq> None then Inl VeloxCheckFailed
                   else Inr filters')
            else
              (case notValue filterInfo of
                 Some notVariant \<Rightarrow>
                   (case createNotEqualFilter k notVariant (nullAllowed filterInfo) [] of
                      Inl e \<Rightarrow> Inl e
                    | Inr colFilters \<Rightarrow>
                        if rangeSize \<noteq> 0 then Inl VeloxCheckFailed
                        else Inr (putFilter inputName
                                    (MultiRangeType k colFilters (nullAllowed filterInfo)) filters))
               | None \<Rightarrow>
                   if rangeSize = 0 \<and> \<not> nullAllowed filterInfo
                   then Inr (putFilter inputName IsNotNull filters)
                   else
                     (case rangeLoop k filterInfo rangeSize 0
                             (getLowest k, True, False, getMax k, True, False) [] of
                        Inl e \<Rightarrow> Inl e
                      | Inr colFilters \<Rightarrow>
                          Inr (setSubfieldFilter k colFilters inputName
                                 (nullAllowed filterInfo) filters)))))"

text \<open>
  \<^verbatim>\<open>mapToFilters\<close>: one round per name of the schema; \<open>colIdx\<close> is the loop index and
  \<open>names\<close> the names from that index on.
\<close>

fun mapToFilters_loop ::
  "(int list \<Rightarrow> bool \<Rightarrow> Filter) \<Rightarrow> (real list \<Rightarrow> bool \<Rightarrow> Filter) \<Rightarrow> string list \<Rightarrow> nat
     \<Rightarrow> TypeKind list \<Rightarrow> ColInfoMap \<Rightarrow> SubfieldFilters \<Rightarrow> error + SubfieldFilters" where
  "mapToFilters_loop createBigintValues createDoubleValues [] colIdx inputTypeList colInfoMap
       filters = Inr filters"
| "mapToFilters_loop createBigintValues createDoubleValues (inputName # names) colIdx
       inputTypeList colInfoMap filters =
     (if \<not> colIdx < length inputTypeList then Inl IndexOutOfRange
      else
        (case rangeTraits (inputTypeList ! colIdx) of
           None \<Rightarrow> Inl VeloxNYI
         | Some k \<Rightarrow>
             (case colInfoMap colIdx of
                None \<Rightarrow> Inl NullFilterInfo
              | Some filterInfo \<Rightarrow>
                  (case constructSubfieldFilters createBigintValues createDoubleValues k
                          inputName filterInfo filters of
                     Inl e \<Rightarrow> Inl e
                   | Inr filters' \<Rightarrow>
                       mapToFilters_loop createBigintValues createDoubleValues names
                         (Suc colIdx) inputTypeList colInfoMap filters'))))"

definition mapToFilters ::
  "(int list \<Rightarrow> bool \<Rightarrow> Filter) \<Rightarrow> (real list \<Rightarrow> bool \<Rightarrow> Filter) \<Rightarrow> string list
     \<Rightarrow> TypeKind list \<Rightarrow> ColInfoMap \<Rightarrow> error + SubfieldFilters" where
  "mapToFilters createBigintValues createDoubleValues inputNameList inputTypeList colInfoMap =
     mapToFilters_loop createBigintValues createDoubleValues inputNameList 0 inputTypeList
       colInfoMap []"

definition toSubfieldFilters ::
  "(int list \<Rightarrow> bool \<Rightarrow> Filter) \<Rightarrow> (real list \<Rightarrow> bool \<Rightarrow> Filter) \<Rightarrow> string list
     \<Rightarrow> TypeKind list \<Rightarrow> ScalarFunction list \<Rightarrow> error + SubfieldFilters" where
  "toSubfieldFilters createBigintValues createDoubleValues inputNameList inputTypeList
       scalarFunctions =
     (case accumulate scalarFunctions inputTypeList (initialColInfoMap inputTypeList) of
        Inl e \<Rightarrow> Inl e
      | Inr colInfoMap \<Rightarrow>
          mapToFilters createBigintValues createDoubleValues inputNameList inputTypeList
            colInfoMap)"

section \<open>The scan of a ReadRel\<close>

datatype FileFormat =
    UNKNOWN | DWRF | RC | RC_TEXT | RC_BINARY | TEXT | JSON | PARQUET | ALPHA | ORC

fun parquetSupports :: "SubfieldFilters \<Rightarrow> bool" where
  "parquetSupports [] = True"
| "parquetSupports ((name, f) # rest) =
     (case kind f of
        kBigintRange \<Rightarrow> parquetSupports rest
      | kDoubleRange \<Rightarrow> parquetSupports rest
      | kBytesValues \<Rightarrow> parquetSupports rest
      | kBytesRange \<Rightarrow> parquetSupports rest
      | kBigintValuesUsingBitmask \<Rightarrow> parquetSupports rest
      | kBigintValuesUsingHashTable \<Rightarrow> parquetSupports rest
      | _ \<Rightarrow> False)"

definition isPushDownSupportedByFormat :: "FileFormat \<Rightarrow> SubfieldFilters \<Rightarrow> bool" where
  "isPushDownSupportedByFormat format subfieldFilters =
     (case format of PARQUET \<Rightarrow> parquetSupports subfieldFilters | _ \<Rightarrow> True)"

text \<open>
  The kinds of the table in the specification (section 4.3.3), for the comparison with
  the switch of the source.
\<close>

definition parquetKinds :: "FilterKind set" where
  "parquetKinds =
     {kBigintRange, kDoubleRange, kBytesValues, kBytesRange, kBigintValuesUsingBitmask,
      kBigintValuesUsingHashTable}"

definition formatSupports :: "FileFormat \<Rightarrow> FilterKind \<Rightarrow> bool" where
  "formatSupports format k = (format = PARQUET \<longrightarrow> k \<in> parquetKinds)"

text \<open>
  Typed expressions. The expression converter is outside the sources: \<^verbatim>\<open>toVeloxExpr\<close> is
  a parameter that takes a call and the row type (names and types) and may fail;
  \<open>TypedCall\<close> stands for the expression it returns for a call. \<open>CallTypedExpr\<close> is the node
  that \<^verbatim>\<open>connectWithAnd\<close> builds itself.
\<close>

datatype TypedExpr =
    TypedCall ScalarFunction
  | CallTypedExpr TypeKind "TypedExpr list" string

fun connectWithAnd_loop ::
  "(ScalarFunction \<Rightarrow> string list \<times> TypeKind list \<Rightarrow> error + TypedExpr)
     \<Rightarrow> string list \<times> TypeKind list \<Rightarrow> ScalarFunction list \<Rightarrow> TypedExpr
     \<Rightarrow> error + TypedExpr" where
  "connectWithAnd_loop toVeloxExpr inputType [] remainingFilter = Inr remainingFilter"
| "connectWithAnd_loop toVeloxExpr inputType (f # rest) remainingFilter =
     (case toVeloxExpr f inputType of
        Inl e \<Rightarrow> Inl e
      | Inr x \<Rightarrow>
          connectWithAnd_loop toVeloxExpr inputType rest
            (CallTypedExpr BOOLEAN [remainingFilter, x] ''and''))"

definition connectWithAnd ::
  "(ScalarFunction \<Rightarrow> string list \<times> TypeKind list \<Rightarrow> error + TypedExpr)
     \<Rightarrow> string list \<Rightarrow> TypeKind list \<Rightarrow> ScalarFunction list \<Rightarrow> error + TypedExpr option"
  where
  "connectWithAnd toVeloxExpr inputNameList inputTypeList remainingFunctions =
     (case remainingFunctions of
        [] \<Rightarrow> Inr None
      | f0 # rest \<Rightarrow>
          (case toVeloxExpr f0 (inputNameList, inputTypeList) of
             Inl e \<Rightarrow> Inl e
           | Inr remainingFilter \<Rightarrow>
               (case connectWithAnd_loop toVeloxExpr (inputNameList, inputTypeList) rest
                       remainingFilter of
                  Inl e \<Rightarrow> Inl e
                | Inr r \<Rightarrow> Inr (Some r))))"

text \<open>
  The conjunction of a list of typed expressions as the specification words it: nothing
  for no expression, else the expressions joined by \<^verbatim>\<open>and\<close> from the left.
\<close>

definition conjunctionOf :: "TypedExpr list \<Rightarrow> TypedExpr option" where
  "conjunctionOf es =
     (case es of
        [] \<Rightarrow> None
      | e # rest \<Rightarrow> Some (foldl (\<lambda>l r. CallTypedExpr BOOLEAN [l, r] ''and'') e rest))"

text \<open>
  Modelled from the spec: \<^verbatim>\<open>SplitInfo\<close> is declared in a header that is not among the
  sources. It is the record of paths, starts, lengths, partition index, format and the
  stream flag; a new one has no paths, is not a stream, and its format is unknown until a
  file sets it.
\<close>

record SplitInfo =
  isStream :: bool
  partitionIndex :: nat
  paths :: "string list"
  starts :: "nat list"
  lengths :: "nat list"
  format :: FileFormat

definition newSplitInfo :: SplitInfo where
  "newSplitInfo =
     \<lparr> isStream = False, partitionIndex = 0, paths = [], starts = [], lengths = [],
       format = UNKNOWN \<rparr>"

fun addFiles :: "LocalFile list \<Rightarrow> SplitInfo \<Rightarrow> SplitInfo" where
  "addFiles [] splitInfo = splitInfo"
| "addFiles (file # fileList) splitInfo =
     addFiles fileList
       (splitInfo\<lparr> partitionIndex := partition_index file,
                   paths := paths splitInfo @ [uri_file file],
                   starts := starts splitInfo @ [start file],
                   lengths := lengths splitInfo @ [file_length file],
                   format := (if file_format file = 2 \<or> file_format file = 3 then DWRF
                              else if file_format file = 1 then PARQUET
                              else UNKNOWN) \<rparr>)"

record HiveTableHandle =
  connectorId :: string
  tableName :: string
  filterPushdownEnabled :: bool
  subfieldFilters :: SubfieldFilters
  remainingFilter :: "TypedExpr option"

text \<open>
  The filter branch of \<^verbatim>\<open>toVeloxPlan(ReadRel)\<close>: flatten, separate, build the subfield
  filters, then keep them or give them up for the format. It returns the subfield filters
  and the remaining filter of the table handle.
\<close>

definition scanFilters ::
  "(int list \<Rightarrow> bool \<Rightarrow> Filter) \<Rightarrow> (real list \<Rightarrow> bool \<Rightarrow> Filter)
     \<Rightarrow> (ScalarFunction \<Rightarrow> string list \<times> TypeKind list \<Rightarrow> error + TypedExpr)
     \<Rightarrow> FileFormat \<Rightarrow> string list \<Rightarrow> TypeKind list \<Rightarrow> Expression
     \<Rightarrow> error + (SubfieldFilters \<times> TypedExpr option)" where
  "scanFilters createBigintValues createDoubleValues toVeloxExpr fmt colNameList veloxTypeList
       sFilter =
     (case flattenConditions sFilter of
        Inl e \<Rightarrow> Inl e
      | Inr scalarFunctions \<Rightarrow>
          (case separateFilters scalarFunctions of
             Inl e \<Rightarrow> Inl e
           | Inr (subfieldFunctions, remainingFunctions) \<Rightarrow>
               (case toSubfieldFilters createBigintValues createDoubleValues colNameList
                       veloxTypeList subfieldFunctions of
                  Inl e \<Rightarrow> Inl e
                | Inr filters \<Rightarrow>
                    if \<not> isPushDownSupportedByFormat fmt filters then
                      (case connectWithAnd toVeloxExpr colNameList veloxTypeList
                              scalarFunctions of
                         Inl e \<Rightarrow> Inl e
                       | Inr r \<Rightarrow> Inr ([], r))
                    else
                      (case connectWithAnd toVeloxExpr colNameList veloxTypeList
                              remainingFunctions of
                         Inl e \<Rightarrow> Inl e
                       | Inr r \<Rightarrow> Inr (filters, r)))))"

text \<open>
  \<^verbatim>\<open>toVeloxPlan(ReadRel)\<close>. The result is the node returned and the split info recorded
  for it in \<^verbatim>\<open>splitInfoMap_\<close>: the registered input node of a stream, a table scan with its
  table handle, or the values node of a virtual table, whose rows are not modelled and
  for which no split info is recorded. The plan node ids, the column assignments and the output names of the scan,
  which no property below depends on, are left out.
\<close>

datatype 'n ReadNode =
    StreamNode 'n
  | TableScanNode HiveTableHandle
  | ValuesNode

definition toVeloxPlan_ReadRel ::
  "(int list \<Rightarrow> bool \<Rightarrow> Filter) \<Rightarrow> (real list \<Rightarrow> bool \<Rightarrow> Filter)
     \<Rightarrow> (ScalarFunction \<Rightarrow> string list \<times> TypeKind list \<Rightarrow> error + TypedExpr)
     \<Rightarrow> bool \<Rightarrow> (int \<Rightarrow> 'n option) \<Rightarrow> ReadRel
     \<Rightarrow> error + ('n ReadNode \<times> SplitInfo option)" where
  "toVeloxPlan_ReadRel createBigintValues createDoubleValues toVeloxExpr validationMode
       inputNodesMap sRead =
     (case streamIsInput validationMode sRead of
        Inl e \<Rightarrow> Inl e
      | Inr streamIdx \<Rightarrow>
          if streamIdx \<ge> 0 then
            (case inputNodesMap streamIdx of
               None \<Rightarrow> Inl VeloxFail
             | Some streamNode \<Rightarrow>
                 Inr (StreamNode streamNode, Some (newSplitInfo\<lparr> isStream := True \<rparr>)))
          else
            (let colNameList = (case base_schema sRead of Some (ns, ts) \<Rightarrow> ns | None \<Rightarrow> []);
                 veloxTypeList = (case base_schema sRead of Some (ns, ts) \<Rightarrow> ts | None \<Rightarrow> []);
                 splitInfo = (case local_files sRead of
                                Some fileList \<Rightarrow> addFiles fileList newSplitInfo
                              | None \<Rightarrow> newSplitInfo)
             in case
                  (case read_filter sRead of
                     None \<Rightarrow> Inr ([], None)
                   | Some sFilter \<Rightarrow>
                       scanFilters createBigintValues createDoubleValues toVeloxExpr
                         (format splitInfo) colNameList veloxTypeList sFilter)
                of
                  Inl e \<Rightarrow> Inl e
                | Inr (filters, remaining) \<Rightarrow>
                    if has_virtual_table sRead then Inr (ValuesNode, None)
                    else Inr (TableScanNode
                                \<lparr> connectorId = ''test-hive'', tableName = ''hive_table'',
                                  filterPushdownEnabled = True, subfieldFilters = filters,
                                  remainingFilter = remaining \<rparr>,
                              Some splitInfo)))"

section \<open>Notions used to state the properties\<close>

text \<open>
  The set the specification calls \<open>INCols\<close>: the columns that appear as the left (first)
  argument of a call named \<^verbatim>\<open>in\<close> among the flattened leaves.
\<close>

fun INCols :: "ScalarFunction list \<Rightarrow> nat set" where
  "INCols [] = {}"
| "INCols (f # fs) =
     (if fname f = ''in''
      then (case args f of kSelection c # _ \<Rightarrow> insert c (INCols fs) | _ \<Rightarrow> INCols fs)
      else INCols fs)"

text \<open>The columns that an expression refers to, at any depth.\<close>

fun columnsOf :: "Expression \<Rightarrow> nat set"
  and columnsOfList :: "Expression list \<Rightarrow> nat set" where
  "columnsOf (kScalarFunction (ScalarFunction n ts as)) = columnsOfList as"
| "columnsOf (kSelection i) = {i}"
| "columnsOf (kLiteral l) = {}"
| "columnsOf kOtherRex = {}"
| "columnsOfList [] = {}"
| "columnsOfList (e # es) = columnsOf e \<union> columnsOfList es"

definition columnsOfCall :: "ScalarFunction \<Rightarrow> nat set" where
  "columnsOfCall f = columnsOfList (args f)"

text \<open>
  What an accepted \<^verbatim>\<open>not\<close> leaf looks like, whatever the state of \<open>notEqualCols\<close>: one
  argument, a call on a field or on a field and a literal, whose column is outside the
  given set.
\<close>

definition notChildOffIN :: "nat set \<Rightarrow> ScalarFunction \<Rightarrow> bool" where
  "notChildOffIN inCols f =
     (case args f of
        [kScalarFunction child] \<Rightarrow>
          (case fieldOrWithLiteral child of Some idx \<Rightarrow> idx \<notin> inCols | None \<Rightarrow> False)
      | _ \<Rightarrow> False)"

section \<open>Properties of flattening\<close>

lemma scalarsOf_append: "scalarsOf (xs @ ys) = scalarsOf xs @ scalarsOf ys"
  by (induction xs rule: scalarsOf.induct) auto

lemma flattenConditions_flattenArgs_leaves:
  "flattenConditions e =
     (if list_all has_scalar_function (andLeaves e) then Inr (scalarsOf (andLeaves e))
      else Inl VeloxNYI)"
  "flattenArgs es =
     (if list_all has_scalar_function (andLeavesList es)
      then Inr (scalarsOf (andLeavesList es)) else Inl VeloxNYI)"
  by (induction e and es rule: flattenConditions_flattenArgs.induct)
     (auto simp: has_scalar_function_def scalarsOf_append split: sum.splits)

text \<open>
  Claim C7, as stated, fails: a node that is not a scalar call does not pass to the
  residuals. For the filter \<^verbatim>\<open>and(gt(c0, 1), true)\<close> the flattening stops with the
  not-implemented failure of its \<^verbatim>\<open>default\<close> branch, and so does the conversion of the
  scan filter: there is no residual at all.
\<close>

theorem flattenConditions_literal_fails:
  "flattenConditions
     (kScalarFunction (ScalarFunction ''and'' [''bool'', ''bool'']
        [kScalarFunction (ScalarFunction ''gt'' [''i64'', ''i64'']
           [kSelection 0, kLiteral (LitI64 1)]),
         kLiteral (LitBoolean True)])) = Inl VeloxNYI
   \<and> scanFilters (\<lambda>vs n. BigintValuesUsingHashTable vs n) (\<lambda>vs n. AlwaysTrue)
       (\<lambda>f rt. Inr (TypedCall f)) DWRF [''c0''] [BIGINT]
       (kScalarFunction (ScalarFunction ''and'' [''bool'', ''bool'']
          [kScalarFunction (ScalarFunction ''gt'' [''i64'', ''i64'']
             [kSelection 0, kLiteral (LitI64 1)]),
           kLiteral (LitBoolean True)])) = Inl VeloxNYI"
  by (simp add: scanFilters_def)

text \<open>
  Claim C7, amended: flattening recurses only into scalar calls named \<^verbatim>\<open>and\<close>. When every
  node it reaches without recursing is a scalar call, the result is the list of these
  calls in order; when one of them is not a scalar call (a literal, a field reference, any
  other kind), the result is the not-implemented failure.
\<close>

theorem flattenConditions_and_leaves:
  "flattenConditions e =
     (if list_all has_scalar_function (andLeaves e) then Inr (scalarsOf (andLeaves e))
      else Inl VeloxNYI)"
  by (rule flattenConditions_flattenArgs_leaves)

theorem flattenConditions_and_leaves_witness:
  "list_all has_scalar_function
     (andLeaves (kScalarFunction (ScalarFunction ''and'' []
        [kScalarFunction (ScalarFunction ''and'' []
           [kScalarFunction (ScalarFunction ''gte'' [] [kSelection 0, kLiteral (LitI64 10)]),
            kScalarFunction (ScalarFunction ''or'' [] [])]),
         kScalarFunction (ScalarFunction ''lt'' [] [kSelection 0, kLiteral (LitI64 100)])])))
   \<and> flattenConditions
       (kScalarFunction (ScalarFunction ''and'' []
          [kScalarFunction (ScalarFunction ''and'' []
             [kScalarFunction (ScalarFunction ''gte'' [] [kSelection 0, kLiteral (LitI64 10)]),
              kScalarFunction (ScalarFunction ''or'' [] [])]),
           kScalarFunction (ScalarFunction ''lt'' [] [kSelection 0, kLiteral (LitI64 100)])]))
     = Inr [ScalarFunction ''gte'' [] [kSelection 0, kLiteral (LitI64 10)],
            ScalarFunction ''or'' [] [],
            ScalarFunction ''lt'' [] [kSelection 0, kLiteral (LitI64 100)]]"
  using flattenConditions_and_leaves
    [of "kScalarFunction (ScalarFunction ''and'' []
          [kScalarFunction (ScalarFunction ''and'' []
             [kScalarFunction (ScalarFunction ''gte'' [] [kSelection 0, kLiteral (LitI64 10)]),
              kScalarFunction (ScalarFunction ''or'' [] [])]),
           kScalarFunction (ScalarFunction ''lt'' [] [kSelection 0, kLiteral (LitI64 100)])])"]
  by (simp add: has_scalar_function_def)

section \<open>Properties of the join keys\<close>

lemma isJoinTree_two_args:
  assumes "isJoinTree vf (kScalarFunction (ScalarFunction n ts as))"
  obtains a b where "as = [a, b]"
proof (cases as)
  case Nil
  with assms show ?thesis by simp
next
  case (Cons a as')
  show ?thesis
  proof (cases as')
    case Nil
    with Cons assms show ?thesis by simp
  next
    case (Cons b as'')
    with \<open>as = a # as'\<close> assms that show ?thesis by (cases as'') auto
  qed
qed

text \<open>
  The loop on a stack of join trees: each tree on the stack contributes the key pairs of
  its leaves from right to left, the top of the stack first.
\<close>

lemma extractJoinKeys_loop_trees:
  "list_all (isJoinTree vf) es \<Longrightarrow>
   extractJoinKeys_loop vf es ls rs =
     Inr (ls @ concat (map (\<lambda>e. rev (map fst (textualKeyPairs vf e))) es),
          rs @ concat (map (\<lambda>e. rev (map snd (textualKeyPairs vf e))) es))"
proof (induction vf es ls rs rule: extractJoinKeys_loop.induct)
  case (1 vf ls rs)
  then show ?case by simp
next
  case (2 vf n ts as es ls rs)
  from "2.prems" have jt: "isJoinTree vf (kScalarFunction (ScalarFunction n ts as))" by simp
  then obtain a b where as: "as = [a, b]" by (rule isJoinTree_two_args)
  show ?case
  proof (cases "vf n = ''and''")
    case True
    with 2 as show ?thesis by simp
  next
    case False
    with "2.prems" as obtain l r
      where ab: "a = kSelection l" "b = kSelection r" and eq: "vf n = ''eq''"
      by (cases a; cases b) (auto simp: has_selection_def)
    with 2 as False show ?thesis by (simp add: has_selection_def)
  qed
qed simp_all

text \<open>
  Claim C6, as stated, fails in its second half: the key pairs do not come out in the
  order in which the \<^verbatim>\<open>eq\<close> leaves are written. For
  \<^verbatim>\<open>and(eq(f0, f1), eq(f2, f3))\<close> the extraction returns the pair of the second leaf
  first.
\<close>

theorem extractJoinKeys_not_textual_order:
  "extractJoinKeys (\<lambda>n. n)
     (kScalarFunction (ScalarFunction ''and'' []
        [kScalarFunction (ScalarFunction ''eq'' [] [kSelection 0, kSelection 1]),
         kScalarFunction (ScalarFunction ''eq'' [] [kSelection 2, kSelection 3])]))
     = Inr ([2, 0], [3, 1])
   \<and> zip [2, 0] [3, 1] \<noteq>
       textualKeyPairs (\<lambda>n. n)
         (kScalarFunction (ScalarFunction ''and'' []
            [kScalarFunction (ScalarFunction ''eq'' [] [kSelection 0, kSelection 1]),
             kScalarFunction (ScalarFunction ''eq'' [] [kSelection 2, kSelection 3])]))"
  by (simp add: extractJoinKeys_def has_selection_def)

text \<open>
  Claim C6, amended: for every join condition that is a tree of two-argument \<^verbatim>\<open>and\<close>
  nodes over \<^verbatim>\<open>eq(field, field)\<close> leaves, the extraction succeeds, passes the check that
  there are as many left keys as right keys, and returns the key pairs of the leaves in
  the reverse of the order in which the leaves are written: the left keys and the right
  keys are the first and second components of the reversed list of pairs.
\<close>

theorem joinKeys_reverse_textual_order:
  "isJoinTree vf e \<Longrightarrow>
   joinKeys vf e = Inr (map fst (rev (textualKeyPairs vf e)), map snd (rev (textualKeyPairs vf e)))
   \<and> length (map fst (rev (textualKeyPairs vf e))) = length (map snd (rev (textualKeyPairs vf e)))"
  using extractJoinKeys_loop_trees [of vf "[e]" "[]" "[]"]
  by (simp add: joinKeys_def extractJoinKeys_def rev_map)

theorem joinKeys_reverse_textual_order_witness:
  "isJoinTree (\<lambda>n. if n = ''equal'' then ''eq'' else n)
     (kScalarFunction (ScalarFunction ''and'' []
        [kScalarFunction (ScalarFunction ''equal'' [] [kSelection 0, kSelection 3]),
         kScalarFunction (ScalarFunction ''and'' []
           [kScalarFunction (ScalarFunction ''equal'' [] [kSelection 1, kSelection 4]),
            kScalarFunction (ScalarFunction ''equal'' [] [kSelection 2, kSelection 5])])]))
   \<and> joinKeys (\<lambda>n. if n = ''equal'' then ''eq'' else n)
       (kScalarFunction (ScalarFunction ''and'' []
          [kScalarFunction (ScalarFunction ''equal'' [] [kSelection 0, kSelection 3]),
           kScalarFunction (ScalarFunction ''and'' []
             [kScalarFunction (ScalarFunction ''equal'' [] [kSelection 1, kSelection 4]),
              kScalarFunction (ScalarFunction ''equal'' [] [kSelection 2, kSelection 5])])]))
     = Inr ([2, 1, 0], [5, 4, 3])"
  using joinKeys_reverse_textual_order
    [of "\<lambda>n. if n = ''equal'' then ''eq'' else n"
        "kScalarFunction (ScalarFunction ''and'' []
          [kScalarFunction (ScalarFunction ''equal'' [] [kSelection 0, kSelection 3]),
           kScalarFunction (ScalarFunction ''and'' []
             [kScalarFunction (ScalarFunction ''equal'' [] [kSelection 1, kSelection 4]),
              kScalarFunction (ScalarFunction ''equal'' [] [kSelection 2, kSelection 5])])])"]
  by (simp add: has_selection_def)

section \<open>Properties of the eligibility analysis\<close>

lemma getColumnIndexFromIn_Inr:
  "getColumnIndexFromIn f = Inr c \<Longrightarrow> \<exists>rest. args f = kSelection c # rest"
  by (auto simp: getColumnIndexFromIn_def split: list.splits Expression.splits Literal.splits)

text \<open>The loop of \<^verbatim>\<open>getInColIndices\<close> computes \<open>INCols\<close>.\<close>

lemma getInColIndices_loop_INCols:
  "getInColIndices_loop fs acc = Inr S \<Longrightarrow> S = acc \<union> INCols fs"
proof (induction fs acc arbitrary: S rule: getInColIndices_loop.induct)
  case (1 inCols)
  then show ?case by simp
next
  case (2 f rest inCols)
  show ?case
  proof (cases "fname f = ''in''")
    case False
    with 2 show ?thesis by simp
  next
    case True
    from True "2.prems" obtain a0 as where as: "args f = a0 # as"
      by (cases "args f") auto
    show ?thesis
    proof (cases "has_selection a0")
      case False
      with True as 2 have "S = inCols \<union> INCols rest" by simp
      moreover from False as True have "INCols (f # rest) = INCols rest"
        by (cases a0) (simp_all add: has_selection_def)
      ultimately show ?thesis by simp
    next
      case sel: True
      with True as "2.prems" obtain c where c: "getColumnIndexFromIn f = Inr c"
        by (cases "getColumnIndexFromIn f") auto
      with True as sel 2 have "S = insert c inCols \<union> INCols rest" by simp
      moreover from getColumnIndexFromIn_Inr [OF c] True
      have "INCols (f # rest) = insert c (INCols rest)" by auto
      ultimately show ?thesis by simp
    qed
  qed
qed

lemma getInColIndices_INCols: "getInColIndices fs = Inr S \<Longrightarrow> S = INCols fs"
  by (auto simp: getInColIndices_def dest: getInColIndices_loop_INCols)

lemma columnsOf_call [simp]: "columnsOf (kScalarFunction c) = columnsOfCall c"
  by (cases c) (simp add: columnsOfCall_def)

text \<open>A call on a field, or on a field and a literal, refers to that one column.\<close>

lemma fieldOrWithLiteral_columns:
  assumes "fieldOrWithLiteral c = Some j"
  shows "columnsOfCall c = {j}"
proof (cases "args c")
  case Nil
  with assms show ?thesis by (simp add: fieldOrWithLiteral_def)
next
  case (Cons a as)
  show ?thesis
  proof (cases as)
    case Nil
    with Cons assms show ?thesis
      by (cases a) (auto simp: fieldOrWithLiteral_def columnsOfCall_def simp del: columnsOf_call)
  next
    case (Cons b bs)
    show ?thesis
    proof (cases bs)
      case Nil
      with Cons \<open>args c = a # as\<close> assms show ?thesis
        by (cases a; cases b)
           (auto simp: fieldOrWithLiteral_def columnsOfCall_def simp del: columnsOf_call)
    next
      case (Cons d ds)
      with \<open>as = b # bs\<close> \<open>args c = a # as\<close> assms show ?thesis
        by (simp add: fieldOrWithLiteral_def)
    qed
  qed
qed

lemma canPushdownNot_True:
  "canPushdownNot f inCols nec = Inr (True, nec') \<Longrightarrow> notChildOffIN inCols f"
  by (auto simp: canPushdownNot_def notChildOffIN_def
           split: list.splits Expression.splits if_splits option.splits)

lemma notChildOffIN_columns:
  assumes "notChildOffIN inCols f" "idx \<in> columnsOfCall f"
  shows "idx \<notin> inCols"
proof (cases "args f")
  case Nil
  with assms show ?thesis by (simp add: notChildOffIN_def)
next
  case (Cons a as)
  with assms(1) have as: "as = []"
    by (cases as; cases a) (simp_all add: notChildOffIN_def)
  with Cons assms(1) obtain child where a: "a = kScalarFunction child"
    by (cases a) (simp_all add: notChildOffIN_def)
  with as Cons assms(1) obtain j where j: "fieldOrWithLiteral child = Some j" "j \<notin> inCols"
    by (cases "fieldOrWithLiteral child") (simp_all add: notChildOffIN_def)
  from assms(2) Cons as a have "idx \<in> columnsOfCall child"
    by (simp add: columnsOfCall_def [of f])
  with fieldOrWithLiteral_columns [OF j(1)] j(2) show ?thesis by simp
qed

lemma canPushdownOr_loop_columns:
  "canPushdownOr_loop as inCols b \<Longrightarrow> idx \<in> columnsOfList as \<Longrightarrow> idx \<notin> inCols"
proof (induction as inCols b rule: canPushdownOr_loop.induct)
  case (2 child rest inCols inExists)
  from "2.prems"(1) obtain j where j: "fieldOrWithLiteral child = Some j" "j \<notin> inCols"
    by (cases "fieldOrWithLiteral child") (auto split: if_splits)
  show ?case
  proof (cases "idx \<in> columnsOfCall child")
    case True
    with j fieldOrWithLiteral_columns [OF j(1)] show ?thesis by simp
  next
    case False
    with "2.prems"(2) have "idx \<in> columnsOfList rest" by simp
    with 2 j show ?thesis by (auto split: if_splits)
  qed
qed simp_all

text \<open>Each round of the loop appends the call to one of the two lists.\<close>

lemma separateFilters_loop_step:
  "separateFilters_loop (g # rest) inCols nec sub rem = Inr (sub', rem') \<Longrightarrow>
   \<exists>nec2. (separateFilters_loop rest inCols nec2 (sub @ [g]) rem = Inr (sub', rem')
            \<and> (fname g \<noteq> ''not'' \<and> fname g \<noteq> ''or''
                 \<longrightarrow> canPushdownCommonFunction g inCols (fname g)))
        \<or> (separateFilters_loop rest inCols nec2 sub (rem @ [g]) = Inr (sub', rem')
            \<and> (fname g \<noteq> ''not'' \<and> fname g \<noteq> ''or''
                 \<longrightarrow> \<not> canPushdownCommonFunction g inCols (fname g)))"
  by (auto split: if_splits sum.splits prod.splits)

lemma separateFilters_loop_mono:
  "separateFilters_loop fs inCols nec sub rem = Inr (sub', rem') \<Longrightarrow>
   set sub \<subseteq> set sub' \<and> set rem \<subseteq> set rem' \<and> set rem' \<subseteq> set rem \<union> set fs"
proof (induction fs arbitrary: nec sub rem)
  case Nil
  then show ?case by simp
next
  case (Cons g rest)
  from separateFilters_loop_step [OF Cons.prems] Cons.IH show ?case
    by fastforce
qed

lemma separateFilters_loop_partition:
  "separateFilters_loop fs inCols nec sub rem = Inr (sub', rem') \<Longrightarrow>
   set sub' \<union> set rem' = set sub \<union> set rem \<union> set fs
   \<and> length sub' + length rem' = length sub + length rem + length fs"
proof (induction fs arbitrary: nec sub rem)
  case Nil
  then show ?case by simp
next
  case (Cons g rest)
  from separateFilters_loop_step [OF Cons.prems] obtain nec2 where
    "separateFilters_loop rest inCols nec2 (sub @ [g]) rem = Inr (sub', rem')
     \<or> separateFilters_loop rest inCols nec2 sub (rem @ [g]) = Inr (sub', rem')"
    by blast
  then show ?case
  proof
    assume "separateFilters_loop rest inCols nec2 (sub @ [g]) rem = Inr (sub', rem')"
    from Cons.IH [OF this] show ?thesis by auto
  next
    assume "separateFilters_loop rest inCols nec2 sub (rem @ [g]) = Inr (sub', rem')"
    from Cons.IH [OF this] show ?thesis by auto
  qed
qed

lemma separateFilters_partition:
  "separateFilters fs = Inr (sub, rem) \<Longrightarrow>
   set sub \<union> set rem = set fs \<and> length sub + length rem = length fs"
  by (cases "getInColIndices fs")
     (auto simp: separateFilters_def dest!: separateFilters_loop_partition)

text \<open>A call that the loop has pushed was accepted by the check for its name.\<close>

lemma separateFilters_loop_pushed:
  "separateFilters_loop fs inCols nec sub rem = Inr (sub', rem') \<Longrightarrow> f \<in> set sub' \<Longrightarrow>
   f \<in> set sub \<or>
   (f \<in> set fs \<and>
    (if fname f = ''not'' then notChildOffIN inCols f
     else if fname f = ''or'' then canPushdownOr f inCols
     else canPushdownCommonFunction f inCols (fname f)))"
proof (induction fs arbitrary: nec sub rem)
  case Nil
  then show ?case by simp
next
  case (Cons g rest)
  show ?case
  proof (cases "fname g \<noteq> ''not'' \<and> fname g \<noteq> ''or''")
    case True
    show ?thesis
    proof (cases "canPushdownCommonFunction g inCols (fname g)")
      case pushed: True
      with True Cons.prems
      have "separateFilters_loop rest inCols nec (sub @ [g]) rem = Inr (sub', rem')" by simp
      from Cons.IH [OF this Cons.prems(2)] True pushed show ?thesis by auto
    next
      case False
      with True Cons.prems
      have "separateFilters_loop rest inCols nec sub (rem @ [g]) = Inr (sub', rem')" by simp
      from Cons.IH [OF this Cons.prems(2)] show ?thesis by auto
    qed
  next
    case False
    show ?thesis
    proof (cases "fname g = ''not''")
      case True
      with Cons.prems obtain supported nec2
        where r: "canPushdownNot g inCols nec = Inr (supported, nec2)"
        by (cases "canPushdownNot g inCols nec") auto
      show ?thesis
      proof (cases supported)
        case pushed: True
        with True r Cons.prems
        have "separateFilters_loop rest inCols nec2 (sub @ [g]) rem = Inr (sub', rem')"
          by simp
        from Cons.IH [OF this Cons.prems(2)] True pushed r
          canPushdownNot_True [of g inCols nec nec2]
        show ?thesis by auto
      next
        case False
        with True r Cons.prems
        have "separateFilters_loop rest inCols nec2 sub (rem @ [g]) = Inr (sub', rem')"
          by simp
        from Cons.IH [OF this Cons.prems(2)] show ?thesis by auto
      qed
    next
      case notnot: False
      with False have isor: "fname g = ''or''" by simp
      show ?thesis
      proof (cases "canPushdownOr g inCols")
        case pushed: True
        with isor Cons.prems
        have "separateFilters_loop rest inCols nec (sub @ [g]) rem = Inr (sub', rem')" by simp
        from Cons.IH [OF this Cons.prems(2)] isor pushed show ?thesis by auto
      next
        case False
        with isor Cons.prems
        have "separateFilters_loop rest inCols nec sub (rem @ [g]) = Inr (sub', rem')" by simp
        from Cons.IH [OF this Cons.prems(2)] show ?thesis by auto
      qed
    qed
  qed
qed

lemma separateFilters_loop_remaining:
  "separateFilters_loop fs inCols nec sub rem = Inr (sub', rem') \<Longrightarrow> f \<in> set fs \<Longrightarrow>
   fname f \<noteq> ''not'' \<Longrightarrow> fname f \<noteq> ''or'' \<Longrightarrow>
   \<not> canPushdownCommonFunction f inCols (fname f) \<Longrightarrow> f \<in> set rem'"
proof (induction fs arbitrary: nec sub rem)
  case Nil
  then show ?case by simp
next
  case (Cons g rest)
  from separateFilters_loop_step [OF Cons.prems(1)] obtain nec2 where
    step: "(separateFilters_loop rest inCols nec2 (sub @ [g]) rem = Inr (sub', rem')
            \<and> (fname g \<noteq> ''not'' \<and> fname g \<noteq> ''or''
                 \<longrightarrow> canPushdownCommonFunction g inCols (fname g)))
        \<or> (separateFilters_loop rest inCols nec2 sub (rem @ [g]) = Inr (sub', rem')
            \<and> (fname g \<noteq> ''not'' \<and> fname g \<noteq> ''or''
                 \<longrightarrow> \<not> canPushdownCommonFunction g inCols (fname g)))"
    by blast
  show ?case
  proof (cases "f = g")
    case True
    with step Cons.prems
    have "separateFilters_loop rest inCols nec2 sub (rem @ [g]) = Inr (sub', rem')"
      by auto
    from separateFilters_loop_mono [OF this] True show ?thesis by auto
  next
    case False
    with Cons.prems have "f \<in> set rest" by simp
    with step Cons.IH Cons.prems show ?thesis by blast
  qed
qed

lemma pushed_leaf_on_IN_column:
  assumes "f \<in> set sub" "separateFilters fs = Inr (sub, rem)"
    "idx \<in> columnsOfCall f" "idx \<in> INCols fs"
  shows "fname f = ''is_not_null'' \<or> fname f = ''in''"
proof -
  from assms(2) obtain inCols where ic: "getInColIndices fs = Inr inCols"
    and loop: "separateFilters_loop fs inCols {} [] [] = Inr (sub, rem)"
    by (cases "getInColIndices fs") (auto simp: separateFilters_def)
  from getInColIndices_INCols [OF ic] have inCols: "inCols = INCols fs" .
  from separateFilters_loop_pushed [OF loop assms(1)]
  have acc: "if fname f = ''not'' then notChildOffIN inCols f
     else if fname f = ''or'' then canPushdownOr f inCols
     else canPushdownCommonFunction f inCols (fname f)" by simp
  show ?thesis
  proof (cases "fname f = ''not''")
    case True
    with acc have "notChildOffIN inCols f" by simp
    from notChildOffIN_columns [OF this assms(3)] assms(4) inCols show ?thesis by simp
  next
    case False
    show ?thesis
    proof (cases "fname f = ''or''")
      case True
      with acc False have "canPushdownOr_loop (args f) inCols False"
        by (auto simp: canPushdownOr_def split: if_splits)
      from canPushdownOr_loop_columns [OF this] assms(3,4) inCols show ?thesis
        by (simp add: columnsOfCall_def)
    next
      case notor: False
      with acc False have c: "canPushdownCommonFunction f inCols (fname f)" by simp
      then obtain j where j: "fieldOrWithLiteral f = Some j"
        by (cases "fieldOrWithLiteral f")
           (auto simp: canPushdownCommonFunction_def split: if_splits)
      with fieldOrWithLiteral_columns [OF j] assms(3,4) inCols have "j \<in> inCols" by simp
      with c j show ?thesis by (auto simp: canPushdownCommonFunction_def split: if_splits)
    qed
  qed
qed

lemma comparison_on_IN_column_remains:
  assumes "separateFilters fs = Inr (sub, rem)" "f \<in> set fs"
    "fname f \<in> {''gte'', ''gt'', ''lte'', ''lt'', ''equal''}"
    "idx \<in> columnsOfCall f" "idx \<in> INCols fs"
  shows "f \<in> set rem \<and> f \<notin> set sub"
proof -
  from assms(1) obtain inCols where ic: "getInColIndices fs = Inr inCols"
    and loop: "separateFilters_loop fs inCols {} [] [] = Inr (sub, rem)"
    by (cases "getInColIndices fs") (auto simp: separateFilters_def)
  from getInColIndices_INCols [OF ic] have inCols: "inCols = INCols fs" .
  from assms(3) have nm: "fname f \<noteq> ''not''" "fname f \<noteq> ''or''"
    "fname f \<noteq> ''is_not_null''" "fname f \<noteq> ''in''"
    by auto
  have no: "\<not> canPushdownCommonFunction f inCols (fname f)"
  proof (cases "fieldOrWithLiteral f")
    case None
    then show ?thesis by (simp add: canPushdownCommonFunction_def)
  next
    case (Some j)
    with fieldOrWithLiteral_columns [OF Some] assms(4,5) inCols have "j \<in> inCols" by simp
    with Some nm show ?thesis by (simp add: canPushdownCommonFunction_def)
  qed
  from separateFilters_loop_remaining [OF loop assms(2) nm(1,2) no] have "f \<in> set rem" .
  moreover from separateFilters_loop_pushed [OF loop, of f] nm no have "f \<notin> set sub" by auto
  ultimately show ?thesis ..
qed

text \<open>
  Claim C5: when the leaves are separated, a leaf that refers to a column of \<open>INCols\<close> is
  among the pushed calls only if it is named \<^verbatim>\<open>is_not_null\<close> or \<^verbatim>\<open>in\<close>, and every leaf
  named \<^verbatim>\<open>gte\<close>, \<^verbatim>\<open>gt\<close>, \<^verbatim>\<open>lte\<close>, \<^verbatim>\<open>lt\<close> or \<^verbatim>\<open>equal\<close> that refers to such a column is among
  the remaining calls and not among the pushed ones.
\<close>

theorem IN_column_leaves:
  "separateFilters fs = Inr (sub, rem) \<Longrightarrow> idx \<in> columnsOfCall f \<Longrightarrow> idx \<in> INCols fs \<Longrightarrow>
   (f \<in> set sub \<longrightarrow> fname f = ''is_not_null'' \<or> fname f = ''in'')
   \<and> (f \<in> set fs \<and> fname f \<in> {''gte'', ''gt'', ''lte'', ''lt'', ''equal''}
        \<longrightarrow> f \<in> set rem \<and> f \<notin> set sub)"
  using pushed_leaf_on_IN_column [of f sub fs rem idx]
    comparison_on_IN_column_remains [of fs sub rem f idx]
  by blast

lemmas separate_eval = separateFilters_def getInColIndices_def canPushdownCommonFunction_def
  canPushdownNot_def canPushdownOr_def chidrenFunctionsOnSameField_def fieldOrWithLiteral_def
  supportedCommonFunctions_def supportedNotFunctions_def supportedOrFunctions_def
  getColumnIndexFromIn_def has_selection_def has_scalar_function_def

theorem IN_column_leaves_witness:
  "separateFilters
     [ScalarFunction ''in'' [''i64'', ''list'']
        [kSelection 0, kLiteral (LitList [LitI64 1, LitI64 2])],
      ScalarFunction ''gte'' [''i64'', ''i64''] [kSelection 0, kLiteral (LitI64 5)],
      ScalarFunction ''is_not_null'' [''i64''] [kSelection 0]]
   = Inr ([ScalarFunction ''in'' [''i64'', ''list'']
             [kSelection 0, kLiteral (LitList [LitI64 1, LitI64 2])],
           ScalarFunction ''is_not_null'' [''i64''] [kSelection 0]],
          [ScalarFunction ''gte'' [''i64'', ''i64''] [kSelection 0, kLiteral (LitI64 5)]])
   \<and> 0 \<in> columnsOfCall
            (ScalarFunction ''gte'' [''i64'', ''i64''] [kSelection 0, kLiteral (LitI64 5)])
   \<and> 0 \<in> INCols
            [ScalarFunction ''in'' [''i64'', ''list'']
               [kSelection 0, kLiteral (LitList [LitI64 1, LitI64 2])],
             ScalarFunction ''gte'' [''i64'', ''i64''] [kSelection 0, kLiteral (LitI64 5)],
             ScalarFunction ''is_not_null'' [''i64''] [kSelection 0]]
   \<and> ScalarFunction ''gte'' [''i64'', ''i64''] [kSelection 0, kLiteral (LitI64 5)]
       \<in> set [ScalarFunction ''gte'' [''i64'', ''i64''] [kSelection 0, kLiteral (LitI64 5)]]"
proof -
  have sep: "separateFilters
     [ScalarFunction ''in'' [''i64'', ''list'']
        [kSelection 0, kLiteral (LitList [LitI64 1, LitI64 2])],
      ScalarFunction ''gte'' [''i64'', ''i64''] [kSelection 0, kLiteral (LitI64 5)],
      ScalarFunction ''is_not_null'' [''i64''] [kSelection 0]]
   = Inr ([ScalarFunction ''in'' [''i64'', ''list'']
             [kSelection 0, kLiteral (LitList [LitI64 1, LitI64 2])],
           ScalarFunction ''is_not_null'' [''i64''] [kSelection 0]],
          [ScalarFunction ''gte'' [''i64'', ''i64''] [kSelection 0, kLiteral (LitI64 5)]])"
    by (simp add: separate_eval)
  have col: "0 \<in> columnsOfCall
            (ScalarFunction ''gte'' [''i64'', ''i64''] [kSelection 0, kLiteral (LitI64 5)])"
    by (simp add: columnsOfCall_def)
  have inc: "0 \<in> INCols
            [ScalarFunction ''in'' [''i64'', ''list'']
               [kSelection 0, kLiteral (LitList [LitI64 1, LitI64 2])],
             ScalarFunction ''gte'' [''i64'', ''i64''] [kSelection 0, kLiteral (LitI64 5)],
             ScalarFunction ''is_not_null'' [''i64''] [kSelection 0]]"
    by simp
  from IN_column_leaves [OF sep col inc] sep col inc show ?thesis by simp
qed

section \<open>Properties of the scan filter\<close>

lemma parquetSupports_iff:
  "parquetSupports filters \<longleftrightarrow> (\<forall>(n, f) \<in> set filters. kind f \<in> parquetKinds)"
proof (induction filters)
  case Nil
  then show ?case by simp
next
  case (Cons p filters)
  obtain n f where p: "p = (n, f)" by (cases p)
  with Cons show ?case by (cases "kind f") (simp_all add: parquetKinds_def)
qed

text \<open>The switch of the source agrees with the table of supported kinds.\<close>

lemma isPushDownSupportedByFormat_iff:
  "isPushDownSupportedByFormat fmt filters \<longleftrightarrow>
     (\<forall>(n, f) \<in> set filters. formatSupports fmt (kind f))"
  by (cases fmt)
     (simp_all add: isPushDownSupportedByFormat_def formatSupports_def parquetSupports_iff)

lemma connectWithAnd_loop_conj:
  "\<forall>f \<in> set fs. tve f rt = Inr (g f) \<Longrightarrow>
   connectWithAnd_loop tve rt fs acc =
     Inr (foldl (\<lambda>l r. CallTypedExpr BOOLEAN [l, r] ''and'') acc (map g fs))"
  by (induction fs arbitrary: acc) simp_all

text \<open>
  When every call converts, \<^verbatim>\<open>connectWithAnd\<close> returns the conjunction of the converted
  calls.
\<close>

lemma connectWithAnd_conj:
  "\<forall>f \<in> set fs. tve f (ns, ts) = Inr (g f) \<Longrightarrow>
   connectWithAnd tve ns ts fs = Inr (conjunctionOf (map g fs))"
proof (cases fs)
  case Nil
  then show ?thesis by (simp add: connectWithAnd_def conjunctionOf_def)
next
  case (Cons f0 rest)
  assume conv: "\<forall>f \<in> set fs. tve f (ns, ts) = Inr (g f)"
  with Cons have "\<forall>f \<in> set rest. tve f (ns, ts) = Inr (g f)" by simp
  from connectWithAnd_loop_conj [of rest tve "(ns, ts)" g "g f0", OF this] conv Cons
  show ?thesis by (simp add: connectWithAnd_def conjunctionOf_def)
qed

text \<open>
  Claim C1: for a scan with a filter whose leaves are flattened to \<open>fs\<close>, separated into
  the pushed calls \<open>sub\<close> and the remaining calls \<open>rem\<close> (together they are the leaves),
  and for which the builder returns the subfield filters \<open>filters\<close>: if the format supports
  the kind of every filter of the map (for \<^verbatim>\<open>PARQUET\<close> the six kinds of the table, for any
  other format every kind), the map is kept and the remaining filter is the conjunction
  of the remaining calls; otherwise the map is empty and the remaining filter is the
  conjunction of all the flattened leaves. \<open>g\<close> is what the expression converter returns
  for each leaf.
\<close>

theorem scanFilters_format_veto:
  assumes flat: "flattenConditions e = Inr fs"
    and sep: "separateFilters fs = Inr (sub, rem)"
    and build: "toSubfieldFilters cbv cdv ns ts sub = Inr filters"
    and conv: "\<forall>f \<in> set fs. tve f (ns, ts) = Inr (g f)"
  shows "scanFilters cbv cdv tve fmt ns ts e =
           (if (\<forall>(n, f) \<in> set filters. formatSupports fmt (kind f))
            then Inr (filters, conjunctionOf (map g rem))
            else Inr ([], conjunctionOf (map g fs)))
         \<and> set sub \<union> set rem = set fs \<and> length sub + length rem = length fs"
proof -
  from separateFilters_partition [OF sep]
  have part: "set sub \<union> set rem = set fs" "length sub + length rem = length fs" by simp_all
  with conv have "\<forall>f \<in> set rem. tve f (ns, ts) = Inr (g f)" by blast
  from connectWithAnd_conj [of rem tve ns ts g, OF this]
    connectWithAnd_conj [of fs tve ns ts g, OF conv] flat sep build part
  show ?thesis
    by (simp add: scanFilters_def isPushDownSupportedByFormat_iff)
qed

lemmas accumulate_eval = toSubfieldFilters_def initialColInfoMap_def setFilterMap_def
  setInValues_def setColInfoMap_def onColumn_def forbidsNull_def setLower_def setUpper_def
  setNotValue_def setValues_def newFilterInfo_def toTypedVariant_def lit_i32_def lit_i64_def
  lit_fp64_def lit_string_def

lemmas builder_eval = mapToFilters_def constructSubfieldFilters_def isInitialized_def
  rangeTraits_def createNotEqualFilter_def setSubfieldFilter_def boundAt_def

theorem scanFilters_format_veto_witness:
  "flattenConditions
     (kScalarFunction (ScalarFunction ''and'' [''bool'', ''bool'']
        [kScalarFunction (ScalarFunction ''is_not_null'' [''i64''] [kSelection 0]),
         kScalarFunction (ScalarFunction ''is_null'' [''i64''] [kSelection 0])]))
     = Inr [ScalarFunction ''is_not_null'' [''i64''] [kSelection 0],
            ScalarFunction ''is_null'' [''i64''] [kSelection 0]]
   \<and> separateFilters
       [ScalarFunction ''is_not_null'' [''i64''] [kSelection 0],
        ScalarFunction ''is_null'' [''i64''] [kSelection 0]]
     = Inr ([ScalarFunction ''is_not_null'' [''i64''] [kSelection 0]],
            [ScalarFunction ''is_null'' [''i64''] [kSelection 0]])
   \<and> toSubfieldFilters (\<lambda>vs n. BigintValuesUsingHashTable vs n) (\<lambda>vs n. AlwaysFalse)
       [''c0''] [BIGINT] [ScalarFunction ''is_not_null'' [''i64''] [kSelection 0]]
     = Inr [(''c0'', IsNotNull)]
   \<and> scanFilters (\<lambda>vs n. BigintValuesUsingHashTable vs n) (\<lambda>vs n. AlwaysFalse)
       (\<lambda>f rt. Inr (TypedCall f)) PARQUET [''c0''] [BIGINT]
       (kScalarFunction (ScalarFunction ''and'' [''bool'', ''bool'']
          [kScalarFunction (ScalarFunction ''is_not_null'' [''i64''] [kSelection 0]),
           kScalarFunction (ScalarFunction ''is_null'' [''i64''] [kSelection 0])]))
     = Inr ([], Some (CallTypedExpr BOOLEAN
                        [TypedCall (ScalarFunction ''is_not_null'' [''i64''] [kSelection 0]),
                         TypedCall (ScalarFunction ''is_null'' [''i64''] [kSelection 0])]
                        ''and''))
   \<and> scanFilters (\<lambda>vs n. BigintValuesUsingHashTable vs n) (\<lambda>vs n. AlwaysFalse)
       (\<lambda>f rt. Inr (TypedCall f)) DWRF [''c0''] [BIGINT]
       (kScalarFunction (ScalarFunction ''and'' [''bool'', ''bool'']
          [kScalarFunction (ScalarFunction ''is_not_null'' [''i64''] [kSelection 0]),
           kScalarFunction (ScalarFunction ''is_null'' [''i64''] [kSelection 0])]))
     = Inr ([(''c0'', IsNotNull)],
            Some (TypedCall (ScalarFunction ''is_null'' [''i64''] [kSelection 0])))"
proof -
  have flat: "flattenConditions
     (kScalarFunction (ScalarFunction ''and'' [''bool'', ''bool'']
        [kScalarFunction (ScalarFunction ''is_not_null'' [''i64''] [kSelection 0]),
         kScalarFunction (ScalarFunction ''is_null'' [''i64''] [kSelection 0])]))
     = Inr [ScalarFunction ''is_not_null'' [''i64''] [kSelection 0],
            ScalarFunction ''is_null'' [''i64''] [kSelection 0]]"
    by simp
  have sep: "separateFilters
       [ScalarFunction ''is_not_null'' [''i64''] [kSelection 0],
        ScalarFunction ''is_null'' [''i64''] [kSelection 0]]
     = Inr ([ScalarFunction ''is_not_null'' [''i64''] [kSelection 0]],
            [ScalarFunction ''is_null'' [''i64''] [kSelection 0]])"
    by (simp add: separate_eval)
  have build: "toSubfieldFilters (\<lambda>vs n. BigintValuesUsingHashTable vs n) (\<lambda>vs n. AlwaysFalse)
       [''c0''] [BIGINT] [ScalarFunction ''is_not_null'' [''i64''] [kSelection 0]]
     = Inr [(''c0'', IsNotNull)]"
    by (simp add: accumulate_eval builder_eval)
  have conv: "\<forall>f \<in> set [ScalarFunction ''is_not_null'' [''i64''] [kSelection 0],
                         ScalarFunction ''is_null'' [''i64''] [kSelection 0]].
                (\<lambda>f rt. Inr (TypedCall f)) f ([''c0''], [BIGINT]) = Inr (TypedCall f)"
    by simp
  from scanFilters_format_veto [OF flat sep build conv, of PARQUET]
    scanFilters_format_veto [OF flat sep build conv, of DWRF] flat sep build
  show ?thesis
    by (simp add: formatSupports_def parquetKinds_def conjunctionOf_def)
qed

section \<open>Properties of the constraint accumulator\<close>

text \<open>
  Claim C3: on a column that has a \<^verbatim>\<open>FilterInfo\<close>, the accumulator follows the comparison
  table. \<^verbatim>\<open>is_not_null\<close> makes null allowed false, and fails under reverse. \<^verbatim>\<open>gte\<close> appends
  an inclusive lower bound, under reverse an exclusive upper bound. \<^verbatim>\<open>gt\<close> appends an
  exclusive lower bound, under reverse an inclusive upper bound. \<^verbatim>\<open>lte\<close> appends an
  inclusive upper bound, under reverse an exclusive lower bound. \<^verbatim>\<open>lt\<close> appends an
  exclusive upper bound, under reverse an inclusive lower bound. \<^verbatim>\<open>equal\<close> appends an
  inclusive lower bound and an inclusive upper bound, under reverse it sets the not-equal
  value.
\<close>

theorem setColInfoMap_comparison_table:
  "colInfoMap colIdx = Some fi \<Longrightarrow>
   setColInfoMap ''is_not_null'' colIdx v False colInfoMap
     = Inr (colInfoMap(colIdx \<mapsto> fi\<lparr> nullAllowed := False \<rparr>))
   \<and> setColInfoMap ''is_not_null'' colIdx v True colInfoMap = Inl VeloxNYI
   \<and> setColInfoMap ''gte'' colIdx v False colInfoMap
       = Inr (colInfoMap(colIdx \<mapsto> fi\<lparr> lowerBounds := lowerBounds fi @ [v],
                                          lowerExclusives := lowerExclusives fi @ [False] \<rparr>))
   \<and> setColInfoMap ''gte'' colIdx v True colInfoMap
       = Inr (colInfoMap(colIdx \<mapsto> fi\<lparr> upperBounds := upperBounds fi @ [v],
                                          upperExclusives := upperExclusives fi @ [True] \<rparr>))
   \<and> setColInfoMap ''gt'' colIdx v False colInfoMap
       = Inr (colInfoMap(colIdx \<mapsto> fi\<lparr> lowerBounds := lowerBounds fi @ [v],
                                          lowerExclusives := lowerExclusives fi @ [True] \<rparr>))
   \<and> setColInfoMap ''gt'' colIdx v True colInfoMap
       = Inr (colInfoMap(colIdx \<mapsto> fi\<lparr> upperBounds := upperBounds fi @ [v],
                                          upperExclusives := upperExclusives fi @ [False] \<rparr>))
   \<and> setColInfoMap ''lte'' colIdx v False colInfoMap
       = Inr (colInfoMap(colIdx \<mapsto> fi\<lparr> upperBounds := upperBounds fi @ [v],
                                          upperExclusives := upperExclusives fi @ [False] \<rparr>))
   \<and> setColInfoMap ''lte'' colIdx v True colInfoMap
       = Inr (colInfoMap(colIdx \<mapsto> fi\<lparr> lowerBounds := lowerBounds fi @ [v],
                                          lowerExclusives := lowerExclusives fi @ [True] \<rparr>))
   \<and> setColInfoMap ''lt'' colIdx v False colInfoMap
       = Inr (colInfoMap(colIdx \<mapsto> fi\<lparr> upperBounds := upperBounds fi @ [v],
                                          upperExclusives := upperExclusives fi @ [True] \<rparr>))
   \<and> setColInfoMap ''lt'' colIdx v True colInfoMap
       = Inr (colInfoMap(colIdx \<mapsto> fi\<lparr> lowerBounds := lowerBounds fi @ [v],
                                          lowerExclusives := lowerExclusives fi @ [False] \<rparr>))
   \<and> setColInfoMap ''equal'' colIdx v False colInfoMap
       = Inr (colInfoMap(colIdx \<mapsto> fi\<lparr> lowerBounds := lowerBounds fi @ [v],
                                          lowerExclusives := lowerExclusives fi @ [False],
                                          upperBounds := upperBounds fi @ [v],
                                          upperExclusives := upperExclusives fi @ [False] \<rparr>))
   \<and> setColInfoMap ''equal'' colIdx v True colInfoMap
       = Inr (colInfoMap(colIdx \<mapsto> fi\<lparr> notValue := v \<rparr>))"
  by (simp add: setColInfoMap_def onColumn_def forbidsNull_def setLower_def setUpper_def
        setNotValue_def)

theorem setColInfoMap_comparison_table_witness:
  "initialColInfoMap [BIGINT] 0 = Some newFilterInfo
   \<and> setColInfoMap ''gte'' 0 (Some (VBigint 10)) True (initialColInfoMap [BIGINT])
       = Inr ((initialColInfoMap [BIGINT])
                (0 \<mapsto> newFilterInfo\<lparr> upperBounds := [Some (VBigint 10)],
                                      upperExclusives := [True] \<rparr>))
   \<and> setColInfoMap ''equal'' 0 (Some (VBigint 10)) False (initialColInfoMap [BIGINT])
       = Inr ((initialColInfoMap [BIGINT])
                (0 \<mapsto> newFilterInfo\<lparr> lowerBounds := [Some (VBigint 10)],
                                      lowerExclusives := [False],
                                      upperBounds := [Some (VBigint 10)],
                                      upperExclusives := [False] \<rparr>))
   \<and> setColInfoMap ''is_not_null'' 0 None True (initialColInfoMap [BIGINT]) = Inl VeloxNYI"
proof -
  have h: "initialColInfoMap [BIGINT] 0 = Some newFilterInfo"
    by (simp add: initialColInfoMap_def)
  from setColInfoMap_comparison_table
      [of "initialColInfoMap [BIGINT]" 0 newFilterInfo "Some (VBigint 10)", OF h]
    setColInfoMap_comparison_table
      [of "initialColInfoMap [BIGINT]" 0 newFilterInfo None, OF h] h
  show ?thesis by (simp add: newFilterInfo_def)
qed

text \<open>An \<^verbatim>\<open>or\<close> of any number of copies of one comparison passes the check.\<close>

lemma childrenColIndices_replicate:
  "childrenColIndices (replicate n (kScalarFunction c)) acc =
     Some (acc @ concat (replicate n (selectionIndices (args c))))"
  by (induction n arbitrary: acc) simp_all

lemma canPushdownOr_loop_replicate_gt:
  "col \<notin> inCols \<Longrightarrow>
   canPushdownOr_loop
     (replicate n (kScalarFunction (ScalarFunction ''gt'' ts' [kSelection col, kLiteral l])))
     inCols b"
  by (induction n) (simp_all add: supportedOrFunctions_def fieldOrWithLiteral_def)

lemma canPushdownOr_replicate_gt:
  "col \<notin> inCols \<Longrightarrow>
   canPushdownOr (ScalarFunction ''or'' ts
     (replicate n (kScalarFunction (ScalarFunction ''gt'' ts' [kSelection col, kLiteral l]))))
     inCols"
proof -
  assume c: "col \<notin> inCols"
  have "concat (replicate n [col]) = replicate n col"
    by (induction n) simp_all
  moreover have "list_all (\<lambda>idx. idx = col) (replicate n col)"
    by (induction n) simp_all
  ultimately have "chidrenFunctionsOnSameField (ScalarFunction ''or'' ts
     (replicate n (kScalarFunction (ScalarFunction ''gt'' ts' [kSelection col, kLiteral l]))))"
    by (cases n) (simp_all add: chidrenFunctionsOnSameField_def childrenColIndices_replicate)
  with c show ?thesis
    by (simp add: canPushdownOr_def canPushdownOr_loop_replicate_gt)
qed

text \<open>
  Claim C10: the check of an \<^verbatim>\<open>or\<close> leaf looks at the children only. An \<^verbatim>\<open>or\<close> of any
  number \<open>n\<close> of comparisons \<^verbatim>\<open>gt(col, l)\<close> on one column is placed among the pushed calls;
  the accumulator then fails with a check on every pushed \<^verbatim>\<open>or\<close> that does not have exactly
  two arguments, each a scalar call, so for \<open>n\<close> other than two the construction of the
  subfield filters fails and the leaf does not fall back to the remaining calls.
\<close>

theorem or_arity_accepted_then_fatal:
  "separateFilters
     [ScalarFunction ''or'' ts
        (replicate n (kScalarFunction (ScalarFunction ''gt'' ts' [kSelection col, kLiteral l])))]
   = Inr ([ScalarFunction ''or'' ts
             (replicate n
                (kScalarFunction (ScalarFunction ''gt'' ts' [kSelection col, kLiteral l])))],
          [])
   \<and> (n \<noteq> 2 \<longrightarrow>
        toSubfieldFilters cbv cdv names types
          [ScalarFunction ''or'' ts
             (replicate n
                (kScalarFunction (ScalarFunction ''gt'' ts' [kSelection col, kLiteral l])))]
        = Inl VeloxCheckFailed)
   \<and> (fname f = ''or''
        \<and> (length (args f) \<noteq> 2 \<or> \<not> list_all has_scalar_function (args f))
        \<longrightarrow> accumulate (f # rest) types m = Inl VeloxCheckFailed)"
  using canPushdownOr_replicate_gt [of col "{}" ts n ts' l]
  by (simp add: separateFilters_def getInColIndices_def toSubfieldFilters_def)

theorem or_arity_accepted_then_fatal_witness:
  "separateFilters
     [ScalarFunction ''or'' [''bool'', ''bool'', ''bool'']
        [kScalarFunction (ScalarFunction ''gt'' [''i64'', ''i64''] [kSelection 0, kLiteral (LitI64 7)]),
         kScalarFunction (ScalarFunction ''gt'' [''i64'', ''i64''] [kSelection 0, kLiteral (LitI64 7)]),
         kScalarFunction (ScalarFunction ''gt'' [''i64'', ''i64''] [kSelection 0, kLiteral (LitI64 7)])]]
   = Inr ([ScalarFunction ''or'' [''bool'', ''bool'', ''bool'']
        [kScalarFunction (ScalarFunction ''gt'' [''i64'', ''i64''] [kSelection 0, kLiteral (LitI64 7)]),
         kScalarFunction (ScalarFunction ''gt'' [''i64'', ''i64''] [kSelection 0, kLiteral (LitI64 7)]),
         kScalarFunction (ScalarFunction ''gt'' [''i64'', ''i64''] [kSelection 0, kLiteral (LitI64 7)])]],
          [])
   \<and> toSubfieldFilters (\<lambda>vs n. BigintValuesUsingHashTable vs n) (\<lambda>vs n. AlwaysFalse)
       [''c0''] [BIGINT]
       [ScalarFunction ''or'' [''bool'', ''bool'', ''bool'']
        [kScalarFunction (ScalarFunction ''gt'' [''i64'', ''i64''] [kSelection 0, kLiteral (LitI64 7)]),
         kScalarFunction (ScalarFunction ''gt'' [''i64'', ''i64''] [kSelection 0, kLiteral (LitI64 7)]),
         kScalarFunction (ScalarFunction ''gt'' [''i64'', ''i64''] [kSelection 0, kLiteral (LitI64 7)])]]
     = Inl VeloxCheckFailed"
  using or_arity_accepted_then_fatal
    [of "[''bool'', ''bool'', ''bool'']" 3 "[''i64'', ''i64'']" 0 "LitI64 7"
        "\<lambda>vs n. BigintValuesUsingHashTable vs n" "\<lambda>vs n. AlwaysFalse" "[''c0'']" "[BIGINT]"
        "ScalarFunction ''and'' [] []" "[]" "initialColInfoMap [BIGINT]"]
  by (simp add: numeral_3_eq_3)

section \<open>Properties of the subfield filter builder\<close>

text \<open>
  Claim C4, as stated, fails: a \<^verbatim>\<open>FilterInfo\<close> with a not-equal value and no range bounds
  may hold IN values, and then the builder takes the IN case first and stops at the check
  that no not-equal value comes with an IN filter. The pushed calls
  \<^verbatim>\<open>not(equal(c0, 1.0))\<close> and \<^verbatim>\<open>or(in(c0, [2.0]), is_not_null(c0))\<close> on a \<^verbatim>\<open>DOUBLE\<close> column
  give such a \<^verbatim>\<open>FilterInfo\<close>.
\<close>

theorem constructSubfieldFilters_notValue_with_values:
  "accumulate
     [ScalarFunction ''not'' [''bool'']
        [kScalarFunction (ScalarFunction ''equal'' [''fp64'', ''fp64'']
           [kSelection 0, kLiteral (LitFp64 1)])],
      ScalarFunction ''or'' [''bool'', ''bool'']
        [kScalarFunction (ScalarFunction ''in'' [''fp64'', ''list'']
           [kSelection 0, kLiteral (LitList [LitFp64 2])]),
         kScalarFunction (ScalarFunction ''is_not_null'' [''fp64''] [kSelection 0])]]
     [DOUBLE] (initialColInfoMap [DOUBLE])
   = Inr ((initialColInfoMap [DOUBLE])
            (0 \<mapsto> \<lparr> nullAllowed = False, lowerExclusives = [], upperExclusives = [],
                    notValue = Some (VDouble 1), lowerBounds = [], upperBounds = [],
                    valuesVector = [VDouble 2] \<rparr>))
   \<and> constructSubfieldFilters (\<lambda>vs n. BigintValuesUsingHashTable vs n) (\<lambda>vs n. AlwaysFalse)
       TraitsDOUBLE ''c0''
       \<lparr> nullAllowed = False, lowerExclusives = [], upperExclusives = [],
         notValue = Some (VDouble 1), lowerBounds = [], upperBounds = [],
         valuesVector = [VDouble 2] \<rparr> []
     = Inl VeloxCheckFailed"
  by (simp add: separate_eval accumulate_eval builder_eval)

text \<open>
  Claim C4, amended: for every column whose \<^verbatim>\<open>FilterInfo\<close> has a not-equal value \<open>v\<close> of the
  native type of the column, no range bounds and no IN values, the builder emits exactly
  one multi-range of two elements for the column: the first is lower-bounded at \<open>v\<close>
  exclusive and upper-unbounded, the second is lower-unbounded and upper-bounded at \<open>v\<close>
  exclusive, and both elements and the multi-range carry null allowed of the
  \<^verbatim>\<open>FilterInfo\<close>.
\<close>

theorem constructSubfieldFilters_not_equal:
  "notValue fi = Some v \<Longrightarrow> nativeValue k v = Inr x \<Longrightarrow>
   lowerBounds fi = [] \<Longrightarrow> upperBounds fi = [] \<Longrightarrow> valuesVector fi = [] \<Longrightarrow>
   constructSubfieldFilters cbv cdv k name fi filters =
     Inr (putFilter name
            (MultiRangeType k
               [RangeType k (Range x False True (getMax k) True False (nullAllowed fi)),
                RangeType k (Range (getLowest k) True False x False True (nullAllowed fi))]
               (nullAllowed fi))
            filters)"
  by (simp add: constructSubfieldFilters_def isInitialized_def createNotEqualFilter_def)

theorem constructSubfieldFilters_not_equal_witness:
  "notValue (newFilterInfo\<lparr> notValue := Some (VInteger 5) \<rparr>) = Some (VInteger 5)
   \<and> nativeValue TraitsINTEGER (VInteger 5) = Inr (NativeInt 5)
   \<and> lowerBounds (newFilterInfo\<lparr> notValue := Some (VInteger 5) \<rparr>) = []
   \<and> upperBounds (newFilterInfo\<lparr> notValue := Some (VInteger 5) \<rparr>) = []
   \<and> valuesVector (newFilterInfo\<lparr> notValue := Some (VInteger 5) \<rparr>) = []
   \<and> constructSubfieldFilters (\<lambda>vs n. BigintValuesUsingHashTable vs n) (\<lambda>vs n. AlwaysFalse)
       TraitsINTEGER ''c0'' (newFilterInfo\<lparr> notValue := Some (VInteger 5) \<rparr>) []
     = Inr [(''c0'',
             BigintMultiRange
               [BigintRange
                  (Range (NativeInt 5) False True (getMax TraitsINTEGER) True False True),
                BigintRange
                  (Range (getLowest TraitsINTEGER) True False (NativeInt 5) False True True)]
               True)]"
  using constructSubfieldFilters_not_equal
    [of "newFilterInfo\<lparr> notValue := Some (VInteger 5) \<rparr>" "VInteger 5" TraitsINTEGER
        "NativeInt 5" "\<lambda>vs n. BigintValuesUsingHashTable vs n" "\<lambda>vs n. AlwaysFalse" "''c0''"
        "[]"]
  by (simp add: newFilterInfo_def)

text \<open>
  Claim C2 describes range \<open>i\<close> as lower-unbounded when \<^verbatim>\<open>lowerBounds[i]\<close> is absent. The
  code does otherwise on the filter \<^verbatim>\<open>and(gte(c0, 5), lte(c0, 10), lte(c0, 20))\<close> over a
  \<^verbatim>\<open>BIGINT\<close> column: the three leaves are pushed, the column has one lower bound and two
  upper bounds, and the second range of the multi-range keeps the lower bound 5 of the
  first round, because the variables of a range are not reset between the rounds of the loop.
\<close>

theorem range_loop_keeps_previous_bound:
  "separateFilters
     [ScalarFunction ''gte'' [''i64'', ''i64''] [kSelection 0, kLiteral (LitI64 5)],
      ScalarFunction ''lte'' [''i64'', ''i64''] [kSelection 0, kLiteral (LitI64 10)],
      ScalarFunction ''lte'' [''i64'', ''i64''] [kSelection 0, kLiteral (LitI64 20)]]
   = Inr ([ScalarFunction ''gte'' [''i64'', ''i64''] [kSelection 0, kLiteral (LitI64 5)],
           ScalarFunction ''lte'' [''i64'', ''i64''] [kSelection 0, kLiteral (LitI64 10)],
           ScalarFunction ''lte'' [''i64'', ''i64''] [kSelection 0, kLiteral (LitI64 20)]], [])
   \<and> toSubfieldFilters cbv cdv [''c0''] [BIGINT]
       [ScalarFunction ''gte'' [''i64'', ''i64''] [kSelection 0, kLiteral (LitI64 5)],
        ScalarFunction ''lte'' [''i64'', ''i64''] [kSelection 0, kLiteral (LitI64 10)],
        ScalarFunction ''lte'' [''i64'', ''i64''] [kSelection 0, kLiteral (LitI64 20)]]
     = Inr [(''c0'',
             BigintMultiRange
               [BigintRange (Range (NativeInt 5) False False (NativeInt 10) False False True),
                BigintRange (Range (NativeInt 5) False False (NativeInt 20) False False True)]
               True)]"
  by (simp add: separate_eval accumulate_eval builder_eval)

text \<open>
  Claim C9 says that the checks of the builder never fire on the calls that the
  eligibility analysis pushes. They do on the filter \<^verbatim>\<open>or(in(c0, [1.0]), gt(c0, 2.0))\<close> over
  a \<^verbatim>\<open>DOUBLE\<close> column: the \<^verbatim>\<open>or\<close> leaf is pushed, the accumulator gives the column both IN
  values and a lower bound, and the builder stops at its check that no range comes with
  an IN filter.
\<close>

theorem pushed_or_with_in_fires_check:
  "separateFilters
     [ScalarFunction ''or'' [''bool'', ''bool'']
        [kScalarFunction (ScalarFunction ''in'' [''fp64'', ''list'']
           [kSelection 0, kLiteral (LitList [LitFp64 1])]),
         kScalarFunction (ScalarFunction ''gt'' [''fp64'', ''fp64'']
           [kSelection 0, kLiteral (LitFp64 2)])]]
   = Inr ([ScalarFunction ''or'' [''bool'', ''bool'']
             [kScalarFunction (ScalarFunction ''in'' [''fp64'', ''list'']
                [kSelection 0, kLiteral (LitList [LitFp64 1])]),
              kScalarFunction (ScalarFunction ''gt'' [''fp64'', ''fp64'']
                [kSelection 0, kLiteral (LitFp64 2)])]], [])
   \<and> accumulate
       [ScalarFunction ''or'' [''bool'', ''bool'']
          [kScalarFunction (ScalarFunction ''in'' [''fp64'', ''list'']
             [kSelection 0, kLiteral (LitList [LitFp64 1])]),
           kScalarFunction (ScalarFunction ''gt'' [''fp64'', ''fp64'']
             [kSelection 0, kLiteral (LitFp64 2)])]]
       [DOUBLE] (initialColInfoMap [DOUBLE])
     = Inr ((initialColInfoMap [DOUBLE])
              (0 \<mapsto> newFilterInfo\<lparr> valuesVector := [VDouble 1],
                                    lowerBounds := [Some (VDouble 2)],
                                    lowerExclusives := [True] \<rparr>))
   \<and> toSubfieldFilters cbv cdv [''c0''] [DOUBLE]
       [ScalarFunction ''or'' [''bool'', ''bool'']
          [kScalarFunction (ScalarFunction ''in'' [''fp64'', ''list'']
             [kSelection 0, kLiteral (LitList [LitFp64 1])]),
           kScalarFunction (ScalarFunction ''gt'' [''fp64'', ''fp64'']
             [kSelection 0, kLiteral (LitFp64 2)])]]
     = Inl VeloxCheckFailed"
  by (simp add: separate_eval accumulate_eval builder_eval)

section \<open>Properties of the stream inputs\<close>

text \<open>
  Claim C8 says that a URI that does not start with \<^verbatim>\<open>iterator:\<close> is a data file and gives
  a table scan. The code searches the marker anywhere in the URI: for the first file
  \<^verbatim>\<open>/data/iterator:3/part-0.parquet\<close> the stream index is 3 and the scan is replaced by the
  input node registered at index 3, with a split info marked as a stream.
\<close>

theorem iterator_marker_inside_path:
  "streamIsInput False
     \<lparr> local_files = Some [\<lparr> uri_file = ''/data/iterator:3/part-0.parquet'',
                             partition_index = 0, start = 0, file_length = 1024,
                             file_format = 1 \<rparr>],
       base_schema = Some ([''c0''], [BIGINT]), read_filter = None,
       has_virtual_table = False \<rparr> = Inr 3
   \<and> toVeloxPlan_ReadRel cbv cdv tve False [3 \<mapsto> ''input-node-3'']
       \<lparr> local_files = Some [\<lparr> uri_file = ''/data/iterator:3/part-0.parquet'',
                               partition_index = 0, start = 0, file_length = 1024,
                               file_format = 1 \<rparr>],
         base_schema = Some ([''c0''], [BIGINT]), read_filter = None,
         has_virtual_table = False \<rparr>
     = Inr (StreamNode ''input-node-3'', Some (newSplitInfo\<lparr> isStream := True \<rparr>))"
  by (simp add: toVeloxPlan_ReadRel_def streamIsInput_def stoi_def digitValue_def isspace_def
        startsWithDigit_def)

end
